theory Spec2Isabelle
  imports Main "HOL-Library.List_Lexorder" "HOL-Library.Char_ord"
begin

section \<open>Data model\<close>

text \<open>
  The tender service keeps its whole state in a relational store and reaches it through a
  connection pool; every repository and service function issues single statements on the
  pool, one after the other, with no transaction around them. The model follows that
  shape: the tables are lists of rows in insertion order, a statement is a function on the
  tables, and a function of the program threads the pool through its statements and stops
  at the first error, as each \<^verbatim>\<open>if err != nil { return nil, err }\<close> does.
\<close>

subsection \<open>models: Tender, Bid, BidReview, ErrorResponse\<close>

type_synonym time = int

text \<open>\<^verbatim>\<open>TenderStatus\<close>, \<^verbatim>\<open>TenderServiceType\<close>, \<^verbatim>\<open>BidStatus\<close>,
  \<^verbatim>\<open>BidAuthorType\<close> and \<^verbatim>\<open>BidDecision\<close> are Go string types: any string is a
  value of them, and the constants below are the named ones.\<close>

definition Construction :: string where "Construction = ''Construction''"
definition Delivery :: string where "Delivery = ''Delivery''"
definition Manufacture :: string where "Manufacture = ''Manufacture''"

definition CreatedTender :: string where "CreatedTender = ''Created''"
definition PublishedTender :: string where "PublishedTender = ''Published''"
definition ClosedTender :: string where "ClosedTender = ''Closed''"

definition CreatedBid :: string where "CreatedBid = ''Created''"
definition PublishedBid :: string where "PublishedBid = ''Published''"
definition CanceledBid :: string where "CanceledBid = ''Canceled''"

definition ApprovedBid :: string where "ApprovedBid = ''Approved''"
definition RejectedBid :: string where "RejectedBid = ''Rejected''"

record Tender =
  ID :: string
  Name :: string
  Description :: string
  Status :: string
  ServiceType :: string
  OrganizationID :: string
  Version :: int
  CreatedAt :: time
  CreatorUsername :: string

record TenderRequest =
  Name :: string
  Description :: string
  ServiceType :: string
  OrganizationID :: string
  CreatorUsername :: string

record Bid =
  ID :: string
  Name :: string
  Description :: string
  Status :: string
  TenderId :: string
  AuthorType :: string
  AuthorId :: string
  Version :: int
  CreatedAt :: time

record BidRequest =
  Name :: string
  Description :: string
  TenderId :: string
  AuthorType :: string
  AuthorId :: string

record BidReview =
  ID :: string
  BidID :: string
  Description :: string
  CreatedAt :: time

text \<open>An error of the program: an \<^verbatim>\<open>*models.ErrorResponse\<close> with its status code and
  message, the driver's \<^verbatim>\<open>pgx.ErrNoRows\<close> (a \<^verbatim>\<open>QueryRow(...).Scan\<close> that found no
  row), any other error the driver reports for a statement, and an error wrapped by
  \<^verbatim>\<open>fmt.Errorf("...: %w", err)\<close>.\<close>

datatype error =
    ErrorResponse int string
  | ErrNoRows
  | StoreFailure
  | Wrapped string error

definition StatusBadRequest :: int where "StatusBadRequest = 400"
definition StatusUnauthorized :: int where "StatusUnauthorized = 401"
definition StatusForbidden :: int where "StatusForbidden = 403"
definition StatusNotFound :: int where "StatusNotFound = 404"
definition StatusInternalServerError :: int where "StatusInternalServerError = 500"

subsection \<open>The tables of the migration\<close>

text \<open>\<^verbatim>\<open>employee\<close> and \<^verbatim>\<open>organization_responsible\<close> with the columns the queries read;
  \<^verbatim>\<open>tender\<close> and \<^verbatim>\<open>tender_history\<close> have the nine columns of \<^verbatim>\<open>models.Tender\<close>,
  \<^verbatim>\<open>bid\<close> the nine of \<^verbatim>\<open>models.Bid\<close>; \<^verbatim>\<open>bid_history\<close> has no \<^verbatim>\<open>tender_id\<close>
  (its generated key \<^verbatim>\<open>id\<close> is never read and is left out).\<close>

record employee_row =
  emp_id :: string
  emp_username :: string

record organization_responsible_row =
  resp_organization_id :: string
  resp_user_id :: string

record BidHistory =
  BidID :: string
  Name :: string
  Description :: string
  Status :: string
  AuthorType :: string
  AuthorId :: string
  Version :: int
  CreatedAt :: time

record db =
  tbl_employee :: "employee_row list"
  tbl_organization_responsible :: "organization_responsible_row list"
  tbl_tender :: "Tender list"
  tbl_tender_history :: "Tender list"
  tbl_bid :: "Bid list"
  tbl_bid_history :: "BidHistory list"
  tbl_bid_review :: "BidReview list"

subsection \<open>The pool and its statements\<close>

text \<open>
  A statement can fail for reasons the tables of this model do not determine: a lost
  connection, the request's deadline, a value that a column of the schema refuses (an id
  that is no UUID, a name beyond \<^verbatim>\<open>VARCHAR(100)\<close>, a version beyond the range of
  \<^verbatim>\<open>INTEGER\<close>, where the store reports an error and does not wrap around). The pool
  therefore carries, beside the tables, the outcomes of the statements to come; an empty
  list means that no statement fails. A statement is either answered (\<open>NoFault\<close>), or it
  cannot be sent at all (\<open>Refused\<close>), or it is sent and breaks while the store executes
  it, after so many rows of its result have arrived (\<open>BrokenAfter\<close>). \<^verbatim>\<open>Exec\<close> and
  \<^verbatim>\<open>QueryRow(...).Scan\<close> report both kinds of failure as their error, and a statement
  that failed has changed nothing. Versions are unbounded integers for that reason: no
  arithmetic of the program on them can overflow (\<^verbatim>\<open>maxVersion + 1\<close> is computed on a
  64-bit \<^verbatim>\<open>int\<close> from a 32-bit column).
\<close>

datatype fault = NoFault | Refused | BrokenAfter nat

record pool =
  tables :: db
  faults :: "fault list"

definition next_fails :: "pool \<Rightarrow> bool" where
  "next_fails p = (case faults p of [] \<Rightarrow> False | f # _ \<Rightarrow> f \<noteq> NoFault)"

definition statement :: "pool \<Rightarrow> (db \<Rightarrow> (error + 'a) \<times> db) \<Rightarrow> (error + 'a) \<times> pool" where
  "statement p run =
     (if next_fails p then (Inl StoreFailure, p\<lparr>faults := tl (faults p)\<rparr>)
      else (case run (tables p) of
              (r, d) \<Rightarrow> (r, \<lparr>tables = d, faults = tl (faults p)\<rparr>)))"

text \<open>\<^verbatim>\<open>DB.Exec\<close>: a write with no result.\<close>

definition Exec :: "pool \<Rightarrow> (db \<Rightarrow> db) \<Rightarrow> (error + unit) \<times> pool" where
  "Exec p write = statement p (\<lambda>d. (Inr (), write d))"

text \<open>\<^verbatim>\<open>DB.QueryRow(...).Scan\<close>: the first row of the result, \<^verbatim>\<open>pgx.ErrNoRows\<close> when
  there is none.\<close>

definition QueryRow :: "pool \<Rightarrow> (db \<Rightarrow> 'a option) \<Rightarrow> (error + 'a) \<times> pool" where
  "QueryRow p query =
     statement p (\<lambda>d. (case query d of None \<Rightarrow> Inl ErrNoRows | Some row \<Rightarrow> Inr row, d))"

text \<open>\<^verbatim>\<open>DB.QueryRow\<close> of an \<^verbatim>\<open>UPDATE ... RETURNING\<close>: the write takes effect, and the
  first of the rows it returns is scanned.\<close>

definition QueryRowReturning ::
  "pool \<Rightarrow> (db \<Rightarrow> db) \<Rightarrow> (db \<Rightarrow> 'a option) \<Rightarrow> (error + 'a) \<times> pool" where
  "QueryRowReturning p write returning =
     statement p (\<lambda>d. (case returning (write d) of None \<Rightarrow> Inl ErrNoRows | Some row \<Rightarrow> Inr row,
                        write d))"

text \<open>
  \<^verbatim>\<open>DB.Query\<close> returns an error only when the query cannot be sent. An error of the
  execution (the store rejects the query while it executes it, or the result breaks off)
  is not returned by it: \<^verbatim>\<open>rows.Next()\<close> returns false from there on, and the error
  is what \<^verbatim>\<open>rows.Err()\<close> gives afterwards. The model returns the rows that arrive together with
  that value of \<^verbatim>\<open>rows.Err()\<close>, for the caller to check or not.
\<close>

definition Query ::
  "pool \<Rightarrow> (db \<Rightarrow> error + 'a list) \<Rightarrow> (error + 'a list \<times> error option) \<times> pool" where
  "Query p query =
     (case faults p of
        Refused # rest \<Rightarrow> (Inl StoreFailure, p\<lparr>faults := rest\<rparr>)
      | BrokenAfter n # rest \<Rightarrow>
          (Inr (case query (tables p) of
                  Inl err \<Rightarrow> ([], Some err)
                | Inr rows \<Rightarrow> (take n rows, Some StoreFailure)),
           p\<lparr>faults := rest\<rparr>)
      | _ \<Rightarrow>
          (Inr (case query (tables p) of
                  Inl err \<Rightarrow> ([], Some err)
                | Inr rows \<Rightarrow> (rows, None)),
           p\<lparr>faults := tl (faults p)\<rparr>))"

section \<open>utils\<close>

subsection \<open>strconv.Atoi\<close>

text \<open>
  The standard library's \<^verbatim>\<open>strconv.Atoi\<close> on a 64-bit build: an optional sign, then
  one or more decimal digits and nothing else; a value outside the range of \<^verbatim>\<open>int\<close>
  is an error.
\<close>

definition is_digit :: "char \<Rightarrow> bool" where
  "is_digit c = (c \<in> set ''0123456789'')"

fun digits_value :: "string \<Rightarrow> int \<Rightarrow> int" where
  "digits_value [] n = n"
| "digits_value (c # cs) n = digits_value cs (n * 10 + (of_char c - 48))"

definition Atoi :: "string \<Rightarrow> int option" where
  "Atoi s =
     (let digits = (case s of [] \<Rightarrow> [] | c # rest \<Rightarrow> if c = CHR ''-'' \<or> c = CHR ''+'' then rest else s);
          n = (case s of [] \<Rightarrow> 0
               | c # rest \<Rightarrow> if c = CHR ''-'' then - digits_value digits 0 else digits_value digits 0)
      in if digits = [] \<or> \<not> list_all is_digit digits then None
         else if n < - (2 ^ 63) \<or> 2 ^ 63 \<le> n then None
         else Some n)"

subsection \<open>ParseLimitOffset\<close>

definition invalid_limit :: string where
  "invalid_limit = ''invalid limit parameter, must be a positive integer [0:50]''"

definition invalid_offset :: string where
  "invalid_offset = ''invalid offset parameter, must be a non-negative integer''"

definition ParseLimitOffset :: "string \<Rightarrow> string \<Rightarrow> string + int \<times> int" where
  "ParseLimitOffset limitStr offsetStr =
     (case (if limitStr \<noteq> [] then
              (case Atoi limitStr of
                 None \<Rightarrow> Inl invalid_limit
               | Some limit \<Rightarrow> if limit \<le> 0 \<or> limit > 50 then Inl invalid_limit else Inr limit)
            else Inr 5) of
        Inl err \<Rightarrow> Inl err
      | Inr limit \<Rightarrow>
          (case (if offsetStr \<noteq> [] then
                   (case Atoi offsetStr of
                      None \<Rightarrow> Inl invalid_offset
                    | Some offset \<Rightarrow> if offset < 0 then Inl invalid_offset else Inr offset)
                 else Inr 0) of
             Inl err \<Rightarrow> Inl err
           | Inr offset \<Rightarrow> Inr (limit, offset)))"

subsection \<open>Existence and authorization lookups\<close>

text \<open>The scalar subquery \<^verbatim>\<open>(SELECT id FROM employee WHERE username = $2)\<close>;
  \<^verbatim>\<open>username\<close> is \<^verbatim>\<open>UNIQUE\<close>. With no such employee it is \<^verbatim>\<open>NULL\<close>, which
  equals nothing.\<close>

definition employee_id :: "db \<Rightarrow> string \<Rightarrow> string option" where
  "employee_id d username =
     map_option emp_id (find (\<lambda>e. emp_username e = username) (tbl_employee d))"

definition CheckUserExists :: "pool \<Rightarrow> string \<Rightarrow> (error + bool) \<times> pool" where
  "CheckUserExists dbPool username =
     QueryRow dbPool (\<lambda>d. Some (list_ex (\<lambda>e. emp_username e = username) (tbl_employee d)))"

definition is_responsible :: "db \<Rightarrow> string \<Rightarrow> string \<Rightarrow> bool" where
  "is_responsible d user organizationId =
     list_ex (\<lambda>orr. resp_organization_id orr = organizationId \<and>
                     list_ex (\<lambda>e. emp_id e = resp_user_id orr \<and> emp_username e = user)
                       (tbl_employee d))
       (tbl_organization_responsible d)"

definition CheckUserResponsibleForOrganization ::
  "pool \<Rightarrow> string \<Rightarrow> string \<Rightarrow> (error + bool) \<times> pool" where
  "CheckUserResponsibleForOrganization dbPool user organizationId =
     QueryRow dbPool (\<lambda>d. Some (is_responsible d user organizationId))"

fun ContainsTender :: "string list \<Rightarrow> string \<Rightarrow> bool" where
  "ContainsTender [] newStatus = False"
| "ContainsTender (validStatus # rest) newStatus =
     (if validStatus = newStatus then True else ContainsTender rest newStatus)"

fun ContainsBid :: "string list \<Rightarrow> string \<Rightarrow> bool" where
  "ContainsBid [] newStatus = False"
| "ContainsBid (validStatus # rest) newStatus =
     (if validStatus = newStatus then True else ContainsBid rest newStatus)"

definition select_tender :: "string \<Rightarrow> db \<Rightarrow> Tender option" where
  "select_tender tenderId d = find (\<lambda>t. Tender.ID t = tenderId) (tbl_tender d)"

definition select_bid :: "string \<Rightarrow> db \<Rightarrow> Bid option" where
  "select_bid bidId d = find (\<lambda>b. Bid.ID b = bidId) (tbl_bid d)"

definition CheckTenderExists :: "pool \<Rightarrow> string \<Rightarrow> (error + bool) \<times> pool" where
  "CheckTenderExists dbPool tenderId =
     QueryRow dbPool (\<lambda>d. Some (list_ex (\<lambda>t. Tender.ID t = tenderId) (tbl_tender d)))"

definition CheckBidExists :: "pool \<Rightarrow> string \<Rightarrow> (error + bool) \<times> pool" where
  "CheckBidExists dbPool bidId =
     QueryRow dbPool (\<lambda>d. Some (list_ex (\<lambda>b. Bid.ID b = bidId) (tbl_bid d)))"

text \<open>\<^verbatim>\<open>WHERE id = $1 AND creator_username = $2 OR EXISTS(...)\<close>: \<^verbatim>\<open>AND\<close> binds
  tighter than \<^verbatim>\<open>OR\<close>, so the second disjunct is not tied to the tender asked for.\<close>

definition is_authorized :: "db \<Rightarrow> string \<Rightarrow> string \<Rightarrow> bool" where
  "is_authorized d username tenderId =
     list_ex (\<lambda>t. (Tender.ID t = tenderId \<and> Tender.CreatorUsername t = username) \<or>
                   list_ex (\<lambda>orr. resp_organization_id orr = Tender.OrganizationID t \<and>
                                   Some (resp_user_id orr) = employee_id d username)
                     (tbl_organization_responsible d))
       (tbl_tender d)"

definition CheckUserAuthorized :: "pool \<Rightarrow> string \<Rightarrow> string \<Rightarrow> (error + bool) \<times> pool" where
  "CheckUserAuthorized dbPool username tenderId =
     QueryRow dbPool (\<lambda>d. Some (is_authorized d username tenderId))"

definition is_authorized_for_bid :: "db \<Rightarrow> string \<Rightarrow> string \<Rightarrow> bool" where
  "is_authorized_for_bid d username bidId =
     list_ex (\<lambda>b. Bid.ID b = bidId \<and> Some (Bid.AuthorId b) = employee_id d username) (tbl_bid d)"

definition CheckUserAuthorizedForBid ::
  "pool \<Rightarrow> string \<Rightarrow> string \<Rightarrow> (error + bool) \<times> pool" where
  "CheckUserAuthorizedForBid dbPool username bidId =
     QueryRow dbPool (\<lambda>d. Some (is_authorized_for_bid d username bidId))"

definition GetTenderById :: "pool \<Rightarrow> string \<Rightarrow> (error + Tender) \<times> pool" where
  "GetTenderById dbPool tenderId = QueryRow dbPool (select_tender tenderId)"

definition GetBidById :: "pool \<Rightarrow> string \<Rightarrow> (error + Bid) \<times> pool" where
  "GetBidById dbPool bidId = QueryRow dbPool (select_bid bidId)"

text \<open>What a handler answers for an error of a service: the status code of an
  \<^verbatim>\<open>*models.ErrorResponse\<close>, 500 for every other error.\<close>

definition response_status :: "error \<Rightarrow> int" where
  "response_status err =
     (case err of ErrorResponse statusCode message \<Rightarrow> statusCode
      | _ \<Rightarrow> StatusInternalServerError)"

section \<open>repository: tenders\<close>

text \<open>A JSON value decoded into \<^verbatim>\<open>interface{}\<close>: the code only asks whether it is a
  string (\<^verbatim>\<open>updateFields["name"].(string)\<close>); every other value (number, boolean, null,
  array, object) fails that assertion alike.\<close>

datatype json = JString string | JNotString

definition string_field :: "(string \<rightharpoonup> json) \<Rightarrow> string \<Rightarrow> string option" where
  "string_field updateFields key =
     (case updateFields key of
        Some (JString v) \<Rightarrow> if v \<noteq> [] then Some v else None
      | _ \<Rightarrow> None)"

text \<open>\<^verbatim>\<open>COALESCE(MAX(version), 0)\<close> over the selected history rows.\<close>

definition coalesce_max :: "int list \<Rightarrow> int" where
  "coalesce_max versions = (case versions of [] \<Rightarrow> 0 | v # rest \<Rightarrow> fold max rest v)"

definition tender_history_max_version :: "string \<Rightarrow> db \<Rightarrow> int" where
  "tender_history_max_version tenderId d =
     coalesce_max (map Tender.Version (filter (\<lambda>h. Tender.ID h = tenderId) (tbl_tender_history d)))"

definition insert_tender :: "Tender \<Rightarrow> db \<Rightarrow> db" where
  "insert_tender row d = d\<lparr>tbl_tender := tbl_tender d @ [row]\<rparr>"

definition insert_tender_history :: "Tender \<Rightarrow> db \<Rightarrow> db" where
  "insert_tender_history row d = d\<lparr>tbl_tender_history := tbl_tender_history d @ [row]\<rparr>"

definition update_tender :: "string \<Rightarrow> (Tender \<Rightarrow> Tender) \<Rightarrow> db \<Rightarrow> db" where
  "update_tender tenderId assign d =
     d\<lparr>tbl_tender := map (\<lambda>t. if Tender.ID t = tenderId then assign t else t) (tbl_tender d)\<rparr>"

definition TenderRepository_CreateTender ::
  "pool \<Rightarrow> TenderRequest \<Rightarrow> string \<Rightarrow> time \<Rightarrow> (error + Tender) \<times> pool" where
  "TenderRepository_CreateTender DB tenderReq uuid now =
     (let newTender = \<lparr>Tender.ID = uuid,
                         Tender.Name = TenderRequest.Name tenderReq,
                         Tender.Description = TenderRequest.Description tenderReq,
                         Tender.Status = CreatedTender,
                         Tender.ServiceType = TenderRequest.ServiceType tenderReq,
                         Tender.OrganizationID = TenderRequest.OrganizationID tenderReq,
                         Tender.Version = 1,
                         Tender.CreatedAt = now,
                         Tender.CreatorUsername = TenderRequest.CreatorUsername tenderReq\<rparr>
      in case Exec DB (insert_tender newTender) of
           (Inl err, DB1) \<Rightarrow> (Inl (Wrapped ''failed to insert tender: '' err), DB1)
         | (Inr _, DB1) \<Rightarrow> (Inr newTender, DB1))"

subsection \<open>GetUserTender\<close>

text \<open>\<^verbatim>\<open>WHERE creator_username = $1 ORDER BY name LIMIT $2 OFFSET $3\<close>. The order of
  the strings stands for the order of the column's collation, and rows with equal names
  keep their insertion order. The store refuses a negative \<^verbatim>\<open>LIMIT\<close> or
  \<^verbatim>\<open>OFFSET\<close> when it executes the query, so this error is one of \<^verbatim>\<open>rows.Err()\<close>.\<close>

definition user_tender_page :: "string \<Rightarrow> int \<Rightarrow> int \<Rightarrow> db \<Rightarrow> error + Tender list" where
  "user_tender_page username limit offset d =
     (if limit < 0 \<or> offset < 0 then Inl StoreFailure
      else Inr (take (nat limit) (drop (nat offset)
                  (sort_key Tender.Name
                     (filter (\<lambda>t. Tender.CreatorUsername t = username) (tbl_tender d))))))"

text \<open>The loop over \<^verbatim>\<open>rows.Next()\<close>: one responsibility check per row that arrives,
  and the first row that fails it ends the whole listing.\<close>

fun scan_user_tenders ::
  "pool \<Rightarrow> string \<Rightarrow> Tender list \<Rightarrow> Tender list \<Rightarrow> (error + Tender list) \<times> pool" where
  "scan_user_tenders DB username [] tenders = (Inr tenders, DB)"
| "scan_user_tenders DB username (t # rows) tenders =
     (case CheckUserResponsibleForOrganization DB username (Tender.OrganizationID t) of
        (Inl err, DB1) \<Rightarrow>
          (Inl (ErrorResponse StatusInternalServerError ''failed to check responsibility''), DB1)
      | (Inr isResponsible, DB1) \<Rightarrow>
          if \<not> isResponsible
          then (Inl (ErrorResponse StatusForbidden
                  ''you do not have permission to view tenders for this organization''), DB1)
          else scan_user_tenders DB1 username rows (tenders @ [t]))"

text \<open>\<^verbatim>\<open>GetUserTender\<close> returns \<^verbatim>\<open>tenders, nil\<close> after the loop and never asks for
  \<^verbatim>\<open>rows.Err()\<close>: a result that broke off, or a query the store refused, gives the
  tenders read so far and no error.\<close>

definition TenderRepository_GetUserTender ::
  "pool \<Rightarrow> int \<Rightarrow> int \<Rightarrow> string \<Rightarrow> (error + Tender list) \<times> pool" where
  "TenderRepository_GetUserTender DB limit offset username =
     (case Query DB (user_tender_page username limit offset) of
        (Inl err, DB1) \<Rightarrow> (Inl err, DB1)
      | (Inr (rows, rowsErr), DB1) \<Rightarrow> scan_user_tenders DB1 username rows [])"

subsection \<open>UpdateTenderStatus\<close>

definition TenderRepository_UpdateTenderStatus ::
  "pool \<Rightarrow> string \<Rightarrow> string \<Rightarrow> (error + Tender) \<times> pool" where
  "TenderRepository_UpdateTenderStatus DB tenderId status =
     (case Exec DB (update_tender tenderId (\<lambda>t. t\<lparr>Tender.Status := status\<rparr>)) of
        (Inl err, DB1) \<Rightarrow> (Inl err, DB1)
      | (Inr _, DB1) \<Rightarrow> QueryRow DB1 (select_tender tenderId))"

subsection \<open>EditTender\<close>

datatype tender_assignment = SetName string | SetDescription string | SetServiceType string

fun assign_tender :: "tender_assignment \<Rightarrow> Tender \<Rightarrow> Tender" where
  "assign_tender (SetName v) t = t\<lparr>Tender.Name := v\<rparr>"
| "assign_tender (SetDescription v) t = t\<lparr>Tender.Description := v\<rparr>"
| "assign_tender (SetServiceType v) t = t\<lparr>Tender.ServiceType := v\<rparr>"

definition allowedServiceTypes :: "string \<Rightarrow> bool" where
  "allowedServiceTypes serviceType =
     (serviceType = Construction \<or> serviceType = Delivery \<or> serviceType = Manufacture)"

text \<open>The \<^verbatim>\<open>updates\<close> slice as the three \<^verbatim>\<open>if\<close> blocks build it, or the error of
  the service type check.\<close>

definition tender_updates :: "(string \<rightharpoonup> json) \<Rightarrow> error + tender_assignment list" where
  "tender_updates updateFields =
     (let updates1 = (case string_field updateFields ''name'' of
                        Some name \<Rightarrow> [SetName name] | None \<Rightarrow> []);
          updates2 = updates1 @ (case string_field updateFields ''description'' of
                                   Some description \<Rightarrow> [SetDescription description] | None \<Rightarrow> [])
      in case string_field updateFields ''serviceType'' of
           Some serviceType \<Rightarrow>
             if \<not> allowedServiceTypes serviceType
             then Inl (ErrorResponse StatusBadRequest
                         (''invalid service_type parameter: '' @ serviceType))
             else Inr (updates2 @ [SetServiceType serviceType])
         | None \<Rightarrow> Inr updates2)"

definition TenderRepository_EditTender ::
  "pool \<Rightarrow> string \<Rightarrow> (string \<rightharpoonup> json) \<Rightarrow> (error + Tender) \<times> pool" where
  "TenderRepository_EditTender DB tenderId updateFields =
     (case QueryRow DB (select_tender tenderId) of
        (Inl err, DB1) \<Rightarrow> (Inl err, DB1)
      | (Inr currentTender, DB1) \<Rightarrow>
     (case QueryRow DB1 (\<lambda>d. Some (tender_history_max_version (Tender.ID currentTender) d)) of
        (Inl err, DB2) \<Rightarrow> (Inl err, DB2)
      | (Inr maxVersion, DB2) \<Rightarrow>
     (case Exec DB2 (insert_tender_history (currentTender\<lparr>Tender.Version := maxVersion + 1\<rparr>)) of
        (Inl err, DB3) \<Rightarrow> (Inl err, DB3)
      | (Inr _, DB3) \<Rightarrow>
     (case tender_updates updateFields of
        Inl err \<Rightarrow> (Inl err, DB3)
      | Inr updates \<Rightarrow>
          if updates = []
          then (Inl (ErrorResponse StatusBadRequest ''No valid fields to update''), DB3)
          else QueryRowReturning DB3
                 (update_tender tenderId
                    (\<lambda>t. (fold assign_tender updates t)\<lparr>Tender.Version := Tender.Version t + 1\<rparr>))
                 (select_tender tenderId)))))"

subsection \<open>RollbackTender\<close>

definition select_tender_history :: "string \<Rightarrow> int \<Rightarrow> db \<Rightarrow> Tender option" where
  "select_tender_history tenderId version d =
     find (\<lambda>h. Tender.ID h = tenderId \<and> Tender.Version h = version) (tbl_tender_history d)"

definition TenderRepository_RollbackTender ::
  "pool \<Rightarrow> string \<Rightarrow> int \<Rightarrow> (error + Tender) \<times> pool" where
  "TenderRepository_RollbackTender DB tenderId version =
     (case QueryRow DB (\<lambda>d. map_option Tender.OrganizationID (select_tender tenderId d)) of
        (Inl err, DB1) \<Rightarrow> (Inl err, DB1)
      | (Inr organizationId, DB1) \<Rightarrow>
     (case QueryRow DB1 (select_tender_history tenderId version) of
        (Inl err, DB2) \<Rightarrow> (Inl err, DB2)
      | (Inr rollbackVersion, DB2) \<Rightarrow>
     (case QueryRowReturning DB2
             (update_tender tenderId
                (\<lambda>t. t\<lparr>Tender.Name := Tender.Name rollbackVersion,
                       Tender.Description := Tender.Description rollbackVersion,
                       Tender.ServiceType := Tender.ServiceType rollbackVersion,
                       Tender.Status := Tender.Status rollbackVersion,
                       Tender.Version := Tender.Version t + 1\<rparr>))
             (select_tender tenderId) of
        (Inl err, DB3) \<Rightarrow> (Inl err, DB3)
      | (Inr updatedTender, DB3) \<Rightarrow>
     (case Exec DB3 (insert_tender_history updatedTender) of
        (Inl err, DB4) \<Rightarrow> (Inl err, DB4)
      | (Inr _, DB4) \<Rightarrow> (Inr updatedTender, DB4)))))"

section \<open>repository: bids\<close>

definition bid_history_max_version :: "string \<Rightarrow> db \<Rightarrow> int" where
  "bid_history_max_version bidId d =
     coalesce_max (map BidHistory.Version
                     (filter (\<lambda>h. BidHistory.BidID h = bidId) (tbl_bid_history d)))"

definition insert_bid :: "Bid \<Rightarrow> db \<Rightarrow> db" where
  "insert_bid row d = d\<lparr>tbl_bid := tbl_bid d @ [row]\<rparr>"

definition insert_bid_history :: "BidHistory \<Rightarrow> db \<Rightarrow> db" where
  "insert_bid_history row d = d\<lparr>tbl_bid_history := tbl_bid_history d @ [row]\<rparr>"

definition insert_bid_review :: "BidReview \<Rightarrow> db \<Rightarrow> db" where
  "insert_bid_review row d = d\<lparr>tbl_bid_review := tbl_bid_review d @ [row]\<rparr>"

definition update_bid :: "string \<Rightarrow> (Bid \<Rightarrow> Bid) \<Rightarrow> db \<Rightarrow> db" where
  "update_bid bidId assign d =
     d\<lparr>tbl_bid := map (\<lambda>b. if Bid.ID b = bidId then assign b else b) (tbl_bid d)\<rparr>"

text \<open>The columns both history inserts of the bid repository write:
  \<^verbatim>\<open>(bid_id, name, description, status, author_type, author_id, version, created_at)\<close>.\<close>

definition bid_history_row :: "Bid \<Rightarrow> int \<Rightarrow> BidHistory" where
  "bid_history_row bid version =
     \<lparr>BidHistory.BidID = Bid.ID bid,
      BidHistory.Name = Bid.Name bid,
      BidHistory.Description = Bid.Description bid,
      BidHistory.Status = Bid.Status bid,
      BidHistory.AuthorType = Bid.AuthorType bid,
      BidHistory.AuthorId = Bid.AuthorId bid,
      BidHistory.Version = version,
      BidHistory.CreatedAt = Bid.CreatedAt bid\<rparr>"

definition BidRepository_CreateBid ::
  "pool \<Rightarrow> BidRequest \<Rightarrow> string \<Rightarrow> time \<Rightarrow> (error + Bid) \<times> pool" where
  "BidRepository_CreateBid DB bidReq uuid now =
     (let newBid = \<lparr>Bid.ID = uuid,
                      Bid.Name = BidRequest.Name bidReq,
                      Bid.Description = BidRequest.Description bidReq,
                      Bid.Status = CreatedBid,
                      Bid.TenderId = BidRequest.TenderId bidReq,
                      Bid.AuthorType = BidRequest.AuthorType bidReq,
                      Bid.AuthorId = BidRequest.AuthorId bidReq,
                      Bid.Version = 1,
                      Bid.CreatedAt = now\<rparr>
      in case Exec DB (insert_bid newBid) of
           (Inl err, DB1) \<Rightarrow> (Inl err, DB1)
         | (Inr _, DB1) \<Rightarrow> (Inr newBid, DB1))"

definition BidRepository_UpdateBidStatus ::
  "pool \<Rightarrow> string \<Rightarrow> string \<Rightarrow> (error + Bid) \<times> pool" where
  "BidRepository_UpdateBidStatus DB bidId status =
     (case Exec DB (update_bid bidId (\<lambda>b. b\<lparr>Bid.Status := status\<rparr>)) of
        (Inl err, DB1) \<Rightarrow> (Inl err, DB1)
      | (Inr _, DB1) \<Rightarrow> QueryRow DB1 (select_bid bidId))"

subsection \<open>EditBid\<close>

datatype bid_assignment = SetBidName string | SetBidDescription string

fun assign_bid :: "bid_assignment \<Rightarrow> Bid \<Rightarrow> Bid" where
  "assign_bid (SetBidName v) b = b\<lparr>Bid.Name := v\<rparr>"
| "assign_bid (SetBidDescription v) b = b\<lparr>Bid.Description := v\<rparr>"

definition bid_updates :: "(string \<rightharpoonup> json) \<Rightarrow> bid_assignment list" where
  "bid_updates updateFields =
     (case string_field updateFields ''name'' of
        Some name \<Rightarrow> [SetBidName name] | None \<Rightarrow> []) @
     (case string_field updateFields ''description'' of
        Some description \<Rightarrow> [SetBidDescription description] | None \<Rightarrow> [])"

definition BidRepository_EditBid ::
  "pool \<Rightarrow> string \<Rightarrow> (string \<rightharpoonup> json) \<Rightarrow> (error + Bid) \<times> pool" where
  "BidRepository_EditBid DB bidId updateFields =
     (case QueryRow DB (select_bid bidId) of
        (Inl err, DB1) \<Rightarrow> (Inl err, DB1)
      | (Inr currentBid, DB1) \<Rightarrow>
     (case QueryRow DB1 (select_bid bidId) of
        (Inl err, DB2) \<Rightarrow> (Inl err, DB2)
      | (Inr bid, DB2) \<Rightarrow>
     (case QueryRow DB2 (\<lambda>d. Some (bid_history_max_version (Bid.ID currentBid) d)) of
        (Inl err, DB3) \<Rightarrow> (Inl err, DB3)
      | (Inr maxVersion, DB3) \<Rightarrow>
     (case Exec DB3 (insert_bid_history (bid_history_row currentBid (maxVersion + 1))) of
        (Inl err, DB4) \<Rightarrow> (Inl err, DB4)
      | (Inr _, DB4) \<Rightarrow>
          if bid_updates updateFields = []
          then (Inl (ErrorResponse StatusBadRequest ''no valid fields to update''), DB4)
          else QueryRowReturning DB4
                 (update_bid bidId
                    (\<lambda>b. (fold assign_bid (bid_updates updateFields) b)
                            \<lparr>Bid.Version := Bid.Version b + 1\<rparr>))
                 (select_bid bidId)))))"

subsection \<open>SubmitBidDecision and SubmitBidFeedback\<close>

definition BidRepository_SubmitBidDecision ::
  "pool \<Rightarrow> string \<Rightarrow> string \<Rightarrow> (error + Bid) \<times> pool" where
  "BidRepository_SubmitBidDecision DB bidId decision =
     (case QueryRow DB (select_bid bidId) of
        (Inl err, DB1) \<Rightarrow> (Inl err, DB1)
      | (Inr bid0, DB1) \<Rightarrow>
     (let bid = bid0\<lparr>Bid.Status := decision\<rparr> in
      case Exec DB1 (update_bid bidId (\<lambda>b. b\<lparr>Bid.Status := Bid.Status bid\<rparr>)) of
        (Inl err, DB2) \<Rightarrow> (Inl err, DB2)
      | (Inr _, DB2) \<Rightarrow>
          if decision = ApprovedBid
          then (case Exec DB2 (update_tender (Bid.TenderId bid)
                                 (\<lambda>t. t\<lparr>Tender.Status := ClosedTender\<rparr>)) of
                  (Inl err, DB3) \<Rightarrow> (Inl err, DB3)
                | (Inr _, DB3) \<Rightarrow> (Inr bid, DB3))
          else (Inr bid, DB2)))"

definition BidRepository_SubmitBidFeedback ::
  "pool \<Rightarrow> BidReview \<Rightarrow> string \<Rightarrow> (error + Bid) \<times> pool" where
  "BidRepository_SubmitBidFeedback DB review bidId =
     (case Exec DB (insert_bid_review review) of
        (Inl err, DB1) \<Rightarrow> (Inl err, DB1)
      | (Inr _, DB1) \<Rightarrow> QueryRow DB1 (select_bid bidId))"

subsection \<open>RollbackBid\<close>

definition select_bid_history :: "string \<Rightarrow> int \<Rightarrow> db \<Rightarrow> BidHistory option" where
  "select_bid_history bidId version d =
     find (\<lambda>h. BidHistory.BidID h = bidId \<and> BidHistory.Version h = version) (tbl_bid_history d)"

text \<open>The \<^verbatim>\<open>RETURNING\<close> list of the rollback has no \<^verbatim>\<open>tender_id\<close>: the result keeps
  the \<^verbatim>\<open>TenderId\<close> of the row read first.\<close>

definition BidRepository_RollbackBid ::
  "pool \<Rightarrow> string \<Rightarrow> int \<Rightarrow> (error + Bid) \<times> pool" where
  "BidRepository_RollbackBid DB bidId version =
     (case QueryRow DB (select_bid bidId) of
        (Inl err, DB1) \<Rightarrow> (Inl err, DB1)
      | (Inr bid0, DB1) \<Rightarrow>
     (case QueryRow DB1 (select_bid_history bidId version) of
        (Inl err, DB2) \<Rightarrow> (Inl err, DB2)
      | (Inr rollbackBid, DB2) \<Rightarrow>
     (case QueryRowReturning DB2
             (update_bid bidId
                (\<lambda>b. b\<lparr>Bid.Name := BidHistory.Name rollbackBid,
                       Bid.Description := BidHistory.Description rollbackBid,
                       Bid.Status := BidHistory.Status rollbackBid,
                       Bid.AuthorType := BidHistory.AuthorType rollbackBid,
                       Bid.AuthorId := BidHistory.AuthorId rollbackBid,
                       Bid.Version := Bid.Version b + 1\<rparr>))
             (select_bid bidId) of
        (Inl err, DB3) \<Rightarrow> (Inl err, DB3)
      | (Inr returned, DB3) \<Rightarrow>
     (let bid = returned\<lparr>Bid.TenderId := Bid.TenderId bid0\<rparr> in
      case Exec DB3 (insert_bid_history (bid_history_row bid (Bid.Version bid))) of
        (Inl err, DB4) \<Rightarrow> (Inl err, DB4)
      | (Inr _, DB4) \<Rightarrow> (Inr bid, DB4)))))"

section \<open>services: tenders\<close>

definition TenderService_GetUserTender ::
  "pool \<Rightarrow> string \<Rightarrow> string \<Rightarrow> string \<Rightarrow> (error + Tender list) \<times> pool" where
  "TenderService_GetUserTender dbPool limitStr offsetStr username =
     (case (if username \<noteq> [] then
              (case CheckUserExists dbPool username of
                 (Inl err, p1) \<Rightarrow>
                   (Inl (ErrorResponse StatusInternalServerError ''internal server error''), p1)
               | (Inr exists, p1) \<Rightarrow>
                   if \<not> exists
                   then (Inl (ErrorResponse StatusUnauthorized ''user does not exist''), p1)
                   else (Inr (), p1))
            else (Inr (), dbPool)) of
        (Inl err, p1) \<Rightarrow> (Inl err, p1)
      | (Inr _, p1) \<Rightarrow>
          (case ParseLimitOffset limitStr offsetStr of
             Inl err \<Rightarrow> (Inl (ErrorResponse StatusBadRequest err), p1)
           | Inr (limit, offset) \<Rightarrow> TenderRepository_GetUserTender p1 limit offset username))"

text \<open>The check that \<^verbatim>\<open>UpdateTenderStatus\<close>, \<^verbatim>\<open>EditTender\<close> and
  \<^verbatim>\<open>RollbackTender\<close> each spell out under \<^verbatim>\<open>if username != ""\<close>; they differ in
  the two messages of the internal errors only.\<close>

definition tender_user_gate ::
  "pool \<Rightarrow> string \<Rightarrow> string \<Rightarrow> string \<Rightarrow> string \<Rightarrow> (error + unit) \<times> pool" where
  "tender_user_gate dbPool username tenderId msg1 msg2 =
     (if username \<noteq> [] then
        (case CheckUserExists dbPool username of
           (Inl err, p1) \<Rightarrow> (Inl (ErrorResponse StatusInternalServerError msg1), p1)
         | (Inr exists, p1) \<Rightarrow>
             if \<not> exists
             then (Inl (ErrorResponse StatusUnauthorized ''user does not exist''), p1)
             else (case CheckUserAuthorized p1 username tenderId of
                     (Inl err, p2) \<Rightarrow> (Inl (ErrorResponse StatusInternalServerError msg2), p2)
                   | (Inr isAuthorized, p2) \<Rightarrow>
                       if \<not> isAuthorized
                       then (Inl (ErrorResponse StatusForbidden
                               ''you are not authorized to edit this tender''), p2)
                       else (Inr (), p2)))
      else (Inr (), dbPool))"

definition tender_allowedStatusTransition :: "string \<Rightarrow> string list" where
  "tender_allowedStatusTransition current =
     (case map_of [(CreatedTender, [PublishedTender, ClosedTender]),
                   (PublishedTender, [ClosedTender]),
                   (ClosedTender, [])] current of
        None \<Rightarrow> [] | Some validTransition \<Rightarrow> validTransition)"

definition TenderService_UpdateTenderStatus ::
  "pool \<Rightarrow> string \<Rightarrow> string \<Rightarrow> string \<Rightarrow> (error + Tender) \<times> pool" where
  "TenderService_UpdateTenderStatus dbPool tenderId status username =
     (if status = [] \<or> username = []
      then (Inl (ErrorResponse StatusBadRequest
                   ''missing required query parameters: status or username''), dbPool)
      else
     (case tender_user_gate dbPool username tenderId
             ''internal server error'' ''internal server error'' of
        (Inl err, p1) \<Rightarrow> (Inl err, p1)
      | (Inr _, p1) \<Rightarrow>
     (case GetTenderById p1 tenderId of
        (Inl err, p2) \<Rightarrow> (Inl (ErrorResponse StatusNotFound ''tender not found''), p2)
      | (Inr currentTender, p2) \<Rightarrow>
          if \<not> ContainsTender (tender_allowedStatusTransition (Tender.Status currentTender)) status
          then (Inl (ErrorResponse StatusBadRequest ''invalid tender status''), p2)
          else TenderRepository_UpdateTenderStatus p2 tenderId status)))"

definition TenderService_EditTender ::
  "pool \<Rightarrow> string \<Rightarrow> string \<Rightarrow> (string \<rightharpoonup> json) \<Rightarrow> (error + Tender) \<times> pool" where
  "TenderService_EditTender dbPool tenderId username updateFields =
     (if username = [] \<or> tenderId = []
      then (Inl (ErrorResponse StatusBadRequest
                   ''missing required query parameter: tenderId or username''), dbPool)
      else
     (case CheckTenderExists dbPool tenderId of
        (Inl err, p1) \<Rightarrow> (Inl (ErrorResponse StatusNotFound ''tender not found''), p1)
      | (Inr tenderExists, p1) \<Rightarrow>
     (case tender_user_gate p1 username tenderId
             ''internal server 1error'' ''internal server 2error'' of
        (Inl err, p2) \<Rightarrow> (Inl err, p2)
      | (Inr _, p2) \<Rightarrow> TenderRepository_EditTender p2 tenderId updateFields)))"

definition TenderService_RollbackTender ::
  "pool \<Rightarrow> string \<Rightarrow> string \<Rightarrow> string \<Rightarrow> (error + Tender) \<times> pool" where
  "TenderService_RollbackTender dbPool tenderId username versionStr =
     (if username = [] \<or> tenderId = [] \<or> versionStr = []
      then (Inl (ErrorResponse StatusBadRequest
                   ''missing required query parameter: tenderId or username or version''), dbPool)
      else
     (case Atoi versionStr of
        None \<Rightarrow> (Inl (ErrorResponse StatusBadRequest ''invalid version number''), dbPool)
      | Some version \<Rightarrow>
     (case CheckTenderExists dbPool tenderId of
        (Inl err, p1) \<Rightarrow> (Inl (ErrorResponse StatusNotFound ''tender not found''), p1)
      | (Inr tenderExists, p1) \<Rightarrow>
     (case tender_user_gate p1 username tenderId
             ''internal server 1error'' ''internal server 2error'' of
        (Inl err, p2) \<Rightarrow> (Inl err, p2)
      | (Inr _, p2) \<Rightarrow> TenderRepository_RollbackTender p2 tenderId version))))"

section \<open>services: bids\<close>

text \<open>\<^verbatim>\<open>CheckUserExists\<close> as the bid services wrap it.\<close>

definition bid_user_exists :: "pool \<Rightarrow> string \<Rightarrow> (error + unit) \<times> pool" where
  "bid_user_exists dbPool username =
     (case CheckUserExists dbPool username of
        (Inl err, p1) \<Rightarrow>
          (Inl (ErrorResponse StatusInternalServerError ''failed to check user existence''), p1)
      | (Inr userExists, p1) \<Rightarrow>
          if \<not> userExists
          then (Inl (ErrorResponse StatusUnauthorized ''user does not exist''), p1)
          else (Inr (), p1))"

definition bid_allowedStatusTransition :: "string \<Rightarrow> string list" where
  "bid_allowedStatusTransition current =
     (case map_of [(CreatedBid, [PublishedBid, CanceledBid]),
                   (PublishedBid, [CanceledBid]),
                   (CanceledBid, [])] current of
        None \<Rightarrow> [] | Some validTransition \<Rightarrow> validTransition)"

definition BidService_UpdateBidStatus ::
  "pool \<Rightarrow> string \<Rightarrow> string \<Rightarrow> string \<Rightarrow> (error + Bid) \<times> pool" where
  "BidService_UpdateBidStatus dbPool bidId status username =
     (if status = [] \<or> username = []
      then (Inl (ErrorResponse StatusBadRequest
                   ''missing required query parameters: username or status''), dbPool)
      else
     (case (if username \<noteq> [] then
              (case bid_user_exists dbPool username of
                 (Inl err, p1) \<Rightarrow> (Inl err, p1)
               | (Inr _, p1) \<Rightarrow>
                   (case CheckUserAuthorizedForBid p1 username bidId of
                      (Inl err, p2) \<Rightarrow>
                        (Inl (ErrorResponse StatusInternalServerError
                                ''failed to check user authorization''), p2)
                    | (Inr isAuthorized, p2) \<Rightarrow>
                        if \<not> isAuthorized
                        then (Inl (ErrorResponse StatusForbidden
                                ''user is not authorized to view bids for this tender''), p2)
                        else (Inr (), p2)))
            else (Inr (), dbPool)) of
        (Inl err, p2) \<Rightarrow> (Inl err, p2)
      | (Inr _, p2) \<Rightarrow>
     (case GetBidById p2 bidId of
        (Inl err, p3) \<Rightarrow> (Inl (ErrorResponse StatusNotFound ''bid not found''), p3)
      | (Inr currentBid, p3) \<Rightarrow>
          if \<not> ContainsBid (bid_allowedStatusTransition (Bid.Status currentBid)) status
          then (Inl (ErrorResponse StatusBadRequest ''invalid bid status''), p3)
          else BidRepository_UpdateBidStatus p3 bidId status)))"

definition BidService_EditBid ::
  "pool \<Rightarrow> string \<Rightarrow> string \<Rightarrow> (string \<rightharpoonup> json) \<Rightarrow> (error + Bid) \<times> pool" where
  "BidService_EditBid dbPool bidId username updateFields =
     (if username = [] \<or> bidId = []
      then (Inl (ErrorResponse StatusBadRequest
                   ''missing required query parameter: bidId or username''), dbPool)
      else
     (case CheckBidExists dbPool bidId of
        (Inl err, p1) \<Rightarrow> (Inl (ErrorResponse StatusNotFound ''bid not found''), p1)
      | (Inr bidExists, p1) \<Rightarrow>
     (case (if username \<noteq> [] then bid_user_exists p1 username else (Inr (), p1)) of
        (Inl err, p2) \<Rightarrow> (Inl err, p2)
      | (Inr _, p2) \<Rightarrow> BidRepository_EditBid p2 bidId updateFields)))"

definition allowedDecision :: "string \<Rightarrow> bool" where
  "allowedDecision decision = (decision = ApprovedBid \<or> decision = RejectedBid)"

definition BidService_SubmitBidDecision ::
  "pool \<Rightarrow> string \<Rightarrow> string \<Rightarrow> string \<Rightarrow> (error + Bid) \<times> pool" where
  "BidService_SubmitBidDecision dbPool bidId username decision =
     (if decision = [] \<or> username = []
      then (Inl (ErrorResponse StatusBadRequest ''decision and username are required''), dbPool)
      else if \<not> allowedDecision decision
      then (Inl (ErrorResponse StatusBadRequest
                   (''invalid decision, must be either 'Approved' or 'Rejected'' @ [CHR 0x27])), dbPool)
      else
     (case bid_user_exists dbPool username of
        (Inl err, p1) \<Rightarrow> (Inl err, p1)
      | (Inr _, p1) \<Rightarrow> BidRepository_SubmitBidDecision p1 bidId decision))"

definition BidService_SubmitBidFeedback ::
  "pool \<Rightarrow> BidReview \<Rightarrow> string \<Rightarrow> string \<Rightarrow> string \<Rightarrow> (error + Bid) \<times> pool" where
  "BidService_SubmitBidFeedback dbPool review bidId bidFeedback username =
     (if bidFeedback = [] \<or> username = [] \<or> bidId = []
      then (Inl (ErrorResponse StatusBadRequest
                   ''bidFeedback, username and bidId are required''), dbPool)
      else
     (case CheckBidExists dbPool bidId of
        (Inl err, p1) \<Rightarrow> (Inl (ErrorResponse StatusNotFound ''bid not found''), p1)
      | (Inr bidExists, p1) \<Rightarrow>
     (case bid_user_exists p1 username of
        (Inl err, p2) \<Rightarrow> (Inl err, p2)
      | (Inr _, p2) \<Rightarrow> BidRepository_SubmitBidFeedback p2 review bidId)))"

definition BidService_RollbackBid ::
  "pool \<Rightarrow> string \<Rightarrow> string \<Rightarrow> string \<Rightarrow> (error + Bid) \<times> pool" where
  "BidService_RollbackBid dbPool bidId username versionStr =
     (case Atoi versionStr of
        None \<Rightarrow> (Inl (ErrorResponse StatusBadRequest ''invalid version number''), dbPool)
      | Some version \<Rightarrow>
     (case CheckBidExists dbPool bidId of
        (Inl err, p1) \<Rightarrow> (Inl (ErrorResponse StatusNotFound ''bid not found''), p1)
      | (Inr bidExists, p1) \<Rightarrow>
          if username = [] \<or> bidId = [] \<or> versionStr = []
          then (Inl (ErrorResponse StatusBadRequest
                       ''missing required query parameter: bidId or username or version''), p1)
          else
     (case bid_user_exists p1 username of
        (Inl err, p2) \<Rightarrow> (Inl err, p2)
      | (Inr _, p2) \<Rightarrow> BidRepository_RollbackBid p2 bidId version)))"

section \<open>Sample states\<close>

definition empty_db :: db where
  "empty_db = \<lparr>tbl_employee = [], tbl_organization_responsible = [], tbl_tender = [],
                tbl_tender_history = [], tbl_bid = [], tbl_bid_history = [],
                tbl_bid_review = []\<rparr>"

definition empty_pool :: pool where
  "empty_pool = \<lparr>tables = empty_db, faults = []\<rparr>"

text \<open>The rows of a tender and of a bid as their creation writes them.\<close>

definition road_repair_row :: Tender where
  "road_repair_row =
     \<lparr>Tender.ID = ''T1'', Tender.Name = ''Road repair'',
      Tender.Description = ''Resurface the main road'', Tender.Status = CreatedTender,
      Tender.ServiceType = Construction, Tender.OrganizationID = ''O1'',
      Tender.Version = 1, Tender.CreatedAt = 0, Tender.CreatorUsername = ''alice''\<rparr>"

definition bridge_paint_row :: Tender where
  "bridge_paint_row =
     \<lparr>Tender.ID = ''T2'', Tender.Name = ''Bridge paint'',
      Tender.Description = ''Repaint the footbridge'', Tender.Status = CreatedTender,
      Tender.ServiceType = Construction, Tender.OrganizationID = ''O1'',
      Tender.Version = 1, Tender.CreatedAt = 1, Tender.CreatorUsername = ''bob''\<rparr>"

definition asphalt_offer_row :: Bid where
  "asphalt_offer_row =
     \<lparr>Bid.ID = ''B1'', Bid.Name = ''Asphalt offer'',
      Bid.Description = ''Two layers of asphalt'', Bid.Status = CreatedBid,
      Bid.TenderId = ''T1'', Bid.AuthorType = ''User'', Bid.AuthorId = ''U2'',
      Bid.Version = 1, Bid.CreatedAt = 0\<rparr>"

text \<open>Three employees, of whom only alice is responsible for organization O1; alice's
  tender, published, and one that bob created for the same organization; bob's bid on the
  first.\<close>

definition sample_db :: db where
  "sample_db =
     \<lparr>tbl_employee = [\<lparr>emp_id = ''U1'', emp_username = ''alice''\<rparr>,
                      \<lparr>emp_id = ''U2'', emp_username = ''bob''\<rparr>,
                      \<lparr>emp_id = ''U3'', emp_username = ''mallory''\<rparr>],
      tbl_organization_responsible =
        [\<lparr>resp_organization_id = ''O1'', resp_user_id = ''U1''\<rparr>],
      tbl_tender =
        [road_repair_row\<lparr>Tender.Status := PublishedTender\<rparr>,
         bridge_paint_row],
      tbl_tender_history = [],
      tbl_bid = [asphalt_offer_row],
      tbl_bid_history = [],
      tbl_bid_review = []\<rparr>"

definition sample_pool :: pool where
  "sample_pool = \<lparr>tables = sample_db, faults = []\<rparr>"

text \<open>The scenario of a tender: created, its description edited, published, rolled back to
  version 1.\<close>

definition road_repair :: TenderRequest where
  "road_repair =
     \<lparr>TenderRequest.Name = ''Road repair'',
      TenderRequest.Description = ''Resurface the main road'',
      TenderRequest.ServiceType = Construction,
      TenderRequest.OrganizationID = ''O1'',
      TenderRequest.CreatorUsername = ''alice''\<rparr>"

definition tender_created :: pool where
  "tender_created = snd (TenderRepository_CreateTender empty_pool road_repair ''T1'' 0)"

definition tender_edited :: pool where
  "tender_edited =
     snd (TenderRepository_EditTender tender_created ''T1''
            [''description'' \<mapsto> JString ''Resurface the ring road''])"

definition tender_published :: pool where
  "tender_published = snd (TenderRepository_UpdateTenderStatus tender_edited ''T1'' PublishedTender)"

definition tender_rolled_back :: pool where
  "tender_rolled_back = snd (TenderRepository_RollbackTender tender_published ''T1'' 1)"

text \<open>The same for a bid, canceled instead of published.\<close>

definition asphalt_offer :: BidRequest where
  "asphalt_offer =
     \<lparr>BidRequest.Name = ''Asphalt offer'',
      BidRequest.Description = ''Two layers of asphalt'',
      BidRequest.TenderId = ''T1'',
      BidRequest.AuthorType = ''User'',
      BidRequest.AuthorId = ''U2''\<rparr>"

definition bid_created :: pool where
  "bid_created = snd (BidRepository_CreateBid empty_pool asphalt_offer ''B1'' 0)"

definition bid_edited :: pool where
  "bid_edited =
     snd (BidRepository_EditBid bid_created ''B1'' [''name'' \<mapsto> JString ''Asphalt offer, revised''])"

definition bid_canceled :: pool where
  "bid_canceled = snd (BidRepository_UpdateBidStatus bid_edited ''B1'' CanceledBid)"

definition bid_rolled_back :: pool where
  "bid_rolled_back = snd (BidRepository_RollbackBid bid_canceled ''B1'' 1)"

text \<open>A longer life of the same tender and bid: edited, published, edited once more,
  closed (canceled), and then rolled back to version 2.\<close>

definition tender_edited_again :: pool where
  "tender_edited_again =
     snd (TenderRepository_EditTender tender_published ''T1''
            [''name'' \<mapsto> JString ''Ring road repair''])"

definition tender_closed :: pool where
  "tender_closed = snd (TenderRepository_UpdateTenderStatus tender_edited_again ''T1'' ClosedTender)"

definition tender_reopened :: pool where
  "tender_reopened = snd (TenderRepository_RollbackTender tender_closed ''T1'' 2)"

definition bid_published :: pool where
  "bid_published = snd (BidRepository_UpdateBidStatus bid_edited ''B1'' PublishedBid)"

definition bid_edited_again :: pool where
  "bid_edited_again =
     snd (BidRepository_EditBid bid_published ''B1''
            [''description'' \<mapsto> JString ''Three layers of asphalt''])"

definition bid_withdrawn :: pool where
  "bid_withdrawn = snd (BidRepository_UpdateBidStatus bid_edited_again ''B1'' CanceledBid)"

definition bid_restored :: pool where
  "bid_restored = snd (BidRepository_RollbackBid bid_withdrawn ''B1'' 2)"

text \<open>A review of bob's bid, and the sample pool after bob edited his bid once.\<close>

definition sample_review :: BidReview where
  "sample_review =
     \<lparr>BidReview.ID = ''R1'', BidReview.BidID = ''B1'',
      BidReview.Description = ''Price is too high'', BidReview.CreatedAt = 3\<rparr>"

definition sample_bid_edited :: pool where
  "sample_bid_edited =
     snd (BidService_EditBid sample_pool ''B1'' ''bob''
            [''description'' \<mapsto> JString ''Three layers of asphalt''])"

text \<open>The sample pool when the result of the next statement breaks off before its first
  row.\<close>

definition listing_breaks_off :: pool where
  "listing_breaks_off = sample_pool\<lparr>faults := [BrokenAfter 0]\<rparr>"

text \<open>The sample pool when the third statement to come fails.\<close>

definition third_statement_fails :: pool where
  "third_statement_fails = sample_pool\<lparr>faults := [NoFault, NoFault, Refused]\<rparr>"

text \<open>The same when alice has closed her tender before.\<close>

definition third_statement_fails_closed :: pool where
  "third_statement_fails_closed =
     (snd (TenderRepository_UpdateTenderStatus sample_pool ''T1'' ClosedTender))
       \<lparr>faults := [NoFault, NoFault, BrokenAfter 0]\<rparr>"

text \<open>The sample tables after alice closed her tender and bob canceled his bid.\<close>

definition closed_pool :: pool where
  "closed_pool =
     snd (BidRepository_UpdateBidStatus
            (snd (TenderRepository_UpdateTenderStatus sample_pool ''T1'' ClosedTender))
            ''B1'' CanceledBid)"

section \<open>Statements, lookups and updates\<close>

subsection \<open>What a statement returns and what it leaves behind\<close>

lemma QueryRow_Inr:
  "QueryRow p q = (Inr x, p') \<Longrightarrow>
     q (tables p) = Some x \<and> tables p' = tables p \<and> faults p' = tl (faults p) \<and> \<not> next_fails p"
  by (auto simp: QueryRow_def statement_def split: if_splits option.splits)

lemma QueryRow_Inl:
  "QueryRow p q = (Inl e, p') \<Longrightarrow> tables p' = tables p \<and> faults p' = tl (faults p)"
  by (auto simp: QueryRow_def statement_def split: if_splits option.splits)

lemma QueryRow_tables [simp]: "tables (snd (QueryRow p q)) = tables p"
  by (simp add: QueryRow_def statement_def)

lemma Exec_Inr:
  "Exec p w = (Inr u, p') \<Longrightarrow>
     tables p' = w (tables p) \<and> faults p' = tl (faults p) \<and> \<not> next_fails p"
  by (auto simp: Exec_def statement_def split: if_splits)

lemma Exec_Inl:
  "Exec p w = (Inl e, p') \<Longrightarrow> tables p' = tables p \<and> faults p' = tl (faults p) \<and> e = StoreFailure"
  by (auto simp: Exec_def statement_def split: if_splits)

lemma QueryRowReturning_Inr:
  "QueryRowReturning p w r = (Inr x, p') \<Longrightarrow>
     tables p' = w (tables p) \<and> r (w (tables p)) = Some x \<and> faults p' = tl (faults p) \<and> \<not> next_fails p"
  by (auto simp: QueryRowReturning_def statement_def split: if_splits option.splits)

subsection \<open>Updates by key\<close>


lemma find_update_by_key:
  assumes "\<And>x. key (g x) = key x"
  shows "find (\<lambda>x. key x = k) (map (\<lambda>x. if key x = k then g x else x) xs) =
         map_option g (find (\<lambda>x. key x = k) xs)"
  using assms by (induction xs) auto

lemma find_Some_split:
  "find P xs = Some x \<Longrightarrow>
     \<exists>before after. xs = before @ x # after \<and> P x \<and> \<not> list_ex P before"
proof (induction xs)
  case Nil
  then show ?case by simp
next
  case (Cons a xs)
  show ?case
  proof (cases "P a")
    case True
    with Cons.prems have "a = x" by simp
    with True have "a # xs = [] @ x # xs \<and> P x \<and> \<not> list_ex P []" by simp
    then show ?thesis by blast
  next
    case False
    with Cons.prems have "find P xs = Some x" by simp
    from Cons.IH [OF this] obtain before after where
      "xs = before @ x # after" "P x" "\<not> list_ex P before" by blast
    with False have "a # xs = (a # before) @ x # after \<and> P x \<and> \<not> list_ex P (a # before)"
      by simp
    then show ?thesis by blast
  qed
qed

lemma assign_tender_frame [simp]:
  "Tender.ID (assign_tender a t) = Tender.ID t"
  "Tender.Version (assign_tender a t) = Tender.Version t"
  "Tender.Status (assign_tender a t) = Tender.Status t"
  by (cases a; simp)+

lemma fold_assign_tender_frame [simp]:
  "Tender.ID (fold assign_tender us t) = Tender.ID t"
  "Tender.Version (fold assign_tender us t) = Tender.Version t"
  "Tender.Status (fold assign_tender us t) = Tender.Status t"
  by (induction us arbitrary: t; simp)+

lemma assign_bid_frame [simp]:
  "Bid.ID (assign_bid a b) = Bid.ID b"
  "Bid.Version (assign_bid a b) = Bid.Version b"
  "Bid.Status (assign_bid a b) = Bid.Status b"
  by (cases a; simp)+

lemma fold_assign_bid_frame [simp]:
  "Bid.ID (fold assign_bid us b) = Bid.ID b"
  "Bid.Version (fold assign_bid us b) = Bid.Version b"
  "Bid.Status (fold assign_bid us b) = Bid.Status b"
  by (induction us arbitrary: b; simp)+

lemma select_tender_update:
  assumes "\<And>x. Tender.ID (g x) = Tender.ID x"
  shows "select_tender k (update_tender k g d) = map_option g (select_tender k d)"
  using find_update_by_key [of Tender.ID g k "tbl_tender d"] assms
  by (simp add: select_tender_def update_tender_def)

lemma select_bid_update:
  assumes "\<And>x. Bid.ID (g x) = Bid.ID x"
  shows "select_bid k (update_bid k g d) = map_option g (select_bid k d)"
  using find_update_by_key [of Bid.ID g k "tbl_bid d"] assms
  by (simp add: select_bid_def update_bid_def)

subsection \<open>Status changes, edits and rollbacks that succeed\<close>







lemma RollbackTender_success:
  assumes "TenderRepository_RollbackTender DB tenderId version = (Inr t, DB')"
  shows "\<exists>old target.
           select_tender tenderId (tables DB) = Some old \<and>
           select_tender_history tenderId version (tables DB) = Some target \<and>
           t = old\<lparr>Tender.Name := Tender.Name target,
                   Tender.Description := Tender.Description target,
                   Tender.ServiceType := Tender.ServiceType target,
                   Tender.Status := Tender.Status target,
                   Tender.Version := Tender.Version old + 1\<rparr> \<and>
           select_tender tenderId (tables DB') = Some t \<and>
           tbl_tender (tables DB') =
             map (\<lambda>x. if Tender.ID x = tenderId
                      then x\<lparr>Tender.Name := Tender.Name target,
                             Tender.Description := Tender.Description target,
                             Tender.ServiceType := Tender.ServiceType target,
                             Tender.Status := Tender.Status target,
                             Tender.Version := Tender.Version x + 1\<rparr>
                      else x) (tbl_tender (tables DB)) \<and>
           tbl_tender_history (tables DB') = tbl_tender_history (tables DB) @ [t]"
proof -
  from assms obtain organizationId DB1 rollbackVersion DB2 DB3 where
    q1: "QueryRow DB (\<lambda>d. map_option Tender.OrganizationID (select_tender tenderId d)) =
           (Inr organizationId, DB1)"
    and q2: "QueryRow DB1 (select_tender_history tenderId version) = (Inr rollbackVersion, DB2)"
    and q3: "QueryRowReturning DB2
               (update_tender tenderId
                  (\<lambda>t. t\<lparr>Tender.Name := Tender.Name rollbackVersion,
                         Tender.Description := Tender.Description rollbackVersion,
                         Tender.ServiceType := Tender.ServiceType rollbackVersion,
                         Tender.Status := Tender.Status rollbackVersion,
                         Tender.Version := Tender.Version t + 1\<rparr>))
               (select_tender tenderId) = (Inr t, DB3)"
    and e4: "Exec DB3 (insert_tender_history t) = (Inr (), DB')"
    by (auto simp: TenderRepository_RollbackTender_def split: prod.splits sum.splits)
  let ?g = "\<lambda>t. t\<lparr>Tender.Name := Tender.Name rollbackVersion,
                  Tender.Description := Tender.Description rollbackVersion,
                  Tender.ServiceType := Tender.ServiceType rollbackVersion,
                  Tender.Status := Tender.Status rollbackVersion,
                  Tender.Version := Tender.Version t + 1\<rparr>"
  from QueryRow_Inr [OF q1] obtain old where sel: "select_tender tenderId (tables DB) = Some old"
    and t1: "tables DB1 = tables DB" by auto
  from QueryRow_Inr [OF q2] t1
  have target: "select_tender_history tenderId version (tables DB) = Some rollbackVersion"
    and t2: "tables DB2 = tables DB" by simp_all
  from QueryRowReturning_Inr [OF q3] t2
  have t3: "tables DB3 = update_tender tenderId ?g (tables DB)"
    and ret: "select_tender tenderId (update_tender tenderId ?g (tables DB)) = Some t"
    by simp_all
  from ret sel have t: "t = ?g old" by (simp add: select_tender_update)
  from Exec_Inr [OF e4] t3
  have t4: "tables DB' = insert_tender_history t (update_tender tenderId ?g (tables DB))"
    by simp
  have "select_tender tenderId (tables DB') = Some t"
    using ret by (simp add: t4 select_tender_def insert_tender_history_def)
  moreover have "tbl_tender (tables DB') =
                   map (\<lambda>x. if Tender.ID x = tenderId then ?g x else x) (tbl_tender (tables DB))"
    by (simp add: t4 update_tender_def insert_tender_history_def)
  moreover have "tbl_tender_history (tables DB') = tbl_tender_history (tables DB) @ [t]"
    by (simp add: t4 update_tender_def insert_tender_history_def)
  ultimately show ?thesis using sel target t by blast
qed


lemma RollbackBid_success:
  assumes "BidRepository_RollbackBid DB bidId version = (Inr bid, DB')"
  shows "\<exists>old target.
           select_bid bidId (tables DB) = Some old \<and>
           select_bid_history bidId version (tables DB) = Some target \<and>
           bid = old\<lparr>Bid.Name := BidHistory.Name target,
                     Bid.Description := BidHistory.Description target,
                     Bid.Status := BidHistory.Status target,
                     Bid.AuthorType := BidHistory.AuthorType target,
                     Bid.AuthorId := BidHistory.AuthorId target,
                     Bid.Version := Bid.Version old + 1\<rparr> \<and>
           select_bid bidId (tables DB') = Some bid \<and>
           tbl_bid (tables DB') =
             map (\<lambda>x. if Bid.ID x = bidId
                      then x\<lparr>Bid.Name := BidHistory.Name target,
                             Bid.Description := BidHistory.Description target,
                             Bid.Status := BidHistory.Status target,
                             Bid.AuthorType := BidHistory.AuthorType target,
                             Bid.AuthorId := BidHistory.AuthorId target,
                             Bid.Version := Bid.Version x + 1\<rparr>
                      else x) (tbl_bid (tables DB)) \<and>
           tbl_bid_history (tables DB') =
             tbl_bid_history (tables DB) @ [bid_history_row bid (Bid.Version bid)]"
proof -
  from assms obtain bid0 DB1 rollbackBid DB2 returned DB3 where
    q1: "QueryRow DB (select_bid bidId) = (Inr bid0, DB1)"
    and q2: "QueryRow DB1 (select_bid_history bidId version) = (Inr rollbackBid, DB2)"
    and q3: "QueryRowReturning DB2
               (update_bid bidId
                  (\<lambda>b. b\<lparr>Bid.Name := BidHistory.Name rollbackBid,
                         Bid.Description := BidHistory.Description rollbackBid,
                         Bid.Status := BidHistory.Status rollbackBid,
                         Bid.AuthorType := BidHistory.AuthorType rollbackBid,
                         Bid.AuthorId := BidHistory.AuthorId rollbackBid,
                         Bid.Version := Bid.Version b + 1\<rparr>))
               (select_bid bidId) = (Inr returned, DB3)"
    and e4: "Exec DB3 (insert_bid_history
                         (bid_history_row (returned\<lparr>Bid.TenderId := Bid.TenderId bid0\<rparr>)
                            (Bid.Version (returned\<lparr>Bid.TenderId := Bid.TenderId bid0\<rparr>)))) =
               (Inr (), DB')"
    and b: "bid = returned\<lparr>Bid.TenderId := Bid.TenderId bid0\<rparr>"
    by (auto simp: BidRepository_RollbackBid_def Let_def split: prod.splits sum.splits)
  let ?g = "\<lambda>b. b\<lparr>Bid.Name := BidHistory.Name rollbackBid,
                  Bid.Description := BidHistory.Description rollbackBid,
                  Bid.Status := BidHistory.Status rollbackBid,
                  Bid.AuthorType := BidHistory.AuthorType rollbackBid,
                  Bid.AuthorId := BidHistory.AuthorId rollbackBid,
                  Bid.Version := Bid.Version b + 1\<rparr>"
  from QueryRow_Inr [OF q1] have sel: "select_bid bidId (tables DB) = Some bid0"
    and t1: "tables DB1 = tables DB" by simp_all
  from QueryRow_Inr [OF q2] t1
  have target: "select_bid_history bidId version (tables DB) = Some rollbackBid"
    and t2: "tables DB2 = tables DB" by simp_all
  from QueryRowReturning_Inr [OF q3] t2
  have t3: "tables DB3 = update_bid bidId ?g (tables DB)"
    and ret: "select_bid bidId (update_bid bidId ?g (tables DB)) = Some returned"
    by simp_all
  from ret sel have r: "returned = ?g bid0" by (simp add: select_bid_update)
  with b have b': "bid = ?g bid0" and same: "bid = returned" by simp_all
  from Exec_Inr [OF e4] t3 b
  have t4: "tables DB' =
              insert_bid_history (bid_history_row bid (Bid.Version bid))
                (update_bid bidId ?g (tables DB))"
    by simp
  have "select_bid bidId (tables DB') = Some bid"
    using ret same by (simp add: t4 select_bid_def insert_bid_history_def)
  moreover have "tbl_bid (tables DB') =
                   map (\<lambda>x. if Bid.ID x = bidId then ?g x else x) (tbl_bid (tables DB))"
    by (simp add: t4 update_bid_def insert_bid_history_def)
  moreover have "tbl_bid_history (tables DB') =
                   tbl_bid_history (tables DB) @ [bid_history_row bid (Bid.Version bid)]"
    by (simp add: t4 update_bid_def insert_bid_history_def)
  ultimately show ?thesis using sel target b' by blast
qed

subsection \<open>Rollback to a version without a history row\<close>

lemma find_None_list_ex: "find P xs = None \<longleftrightarrow> \<not> list_ex P xs"
  by (induction xs) auto

lemma RollbackTender_missing_version:
  assumes "\<not> list_ex (\<lambda>h. Tender.ID h = tenderId \<and> Tender.Version h = version)
               (tbl_tender_history (tables DB))"
  shows "\<exists>err. fst (TenderRepository_RollbackTender DB tenderId version) = Inl err \<and>
           (err = ErrNoRows \<or> err = StoreFailure) \<and>
           (faults DB = [] \<longrightarrow> err = ErrNoRows) \<and>
           tables (snd (TenderRepository_RollbackTender DB tenderId version)) = tables DB"
proof -
  from assms have none: "select_tender_history tenderId version (tables DB) = None"
    by (simp add: select_tender_history_def find_None_list_ex)
  show ?thesis
    using none
    by (auto simp: TenderRepository_RollbackTender_def QueryRow_def statement_def next_fails_def
             split: prod.splits sum.splits option.splits if_splits list.splits)
qed

lemma RollbackBid_missing_version:
  assumes "\<not> list_ex (\<lambda>h. BidHistory.BidID h = bidId \<and> BidHistory.Version h = version)
               (tbl_bid_history (tables DB))"
  shows "\<exists>err. fst (BidRepository_RollbackBid DB bidId version) = Inl err \<and>
           (err = ErrNoRows \<or> err = StoreFailure) \<and>
           (faults DB = [] \<longrightarrow> err = ErrNoRows) \<and>
           tables (snd (BidRepository_RollbackBid DB bidId version)) = tables DB"
proof -
  from assms have none: "select_bid_history bidId version (tables DB) = None"
    by (simp add: select_bid_history_def find_None_list_ex)
  show ?thesis
    using none
    by (auto simp: BidRepository_RollbackBid_def QueryRow_def statement_def next_fails_def
             split: prod.splits sum.splits option.splits if_splits list.splits)
qed


subsection \<open>A store that answers every statement\<close>

lemma statement_no_faults:
  "faults p = [] \<Longrightarrow> statement p run = (fst (run (tables p)), p\<lparr>tables := snd (run (tables p))\<rparr>)"
  by (cases "run (tables p)") (simp add: statement_def next_fails_def)

lemma QueryRow_no_faults:
  "faults p = [] \<Longrightarrow>
     QueryRow p q = (case q (tables p) of None \<Rightarrow> Inl ErrNoRows | Some row \<Rightarrow> Inr row, p)"
  by (simp add: QueryRow_def statement_no_faults)

lemma Exec_no_faults: "faults p = [] \<Longrightarrow> Exec p w = (Inr (), p\<lparr>tables := w (tables p)\<rparr>)"
  by (simp add: Exec_def statement_no_faults)

subsection \<open>Status changes out of a terminal status\<close>

lemma tender_user_gate_tables [simp]:
  "tables (snd (tender_user_gate p username tenderId msg1 msg2)) = tables p"
  by (auto simp: tender_user_gate_def CheckUserExists_def CheckUserAuthorized_def
        QueryRow_def statement_def split: prod.splits sum.splits if_splits)

lemma tender_user_gate_pass:
  assumes "faults p = []" and "username \<noteq> []"
    and "list_ex (\<lambda>e. emp_username e = username) (tbl_employee (tables p))"
    and "is_authorized (tables p) username tenderId"
  shows "tender_user_gate p username tenderId msg1 msg2 = (Inr (), p)"
  using assms
  by (simp add: tender_user_gate_def CheckUserExists_def CheckUserAuthorized_def
        QueryRow_no_faults)

lemma closed_tender_has_no_transition [simp]:
  "ContainsTender (tender_allowedStatusTransition ClosedTender) status = False"
  by (simp add: tender_allowedStatusTransition_def ClosedTender_def CreatedTender_def
        PublishedTender_def)

lemma canceled_bid_has_no_transition [simp]:
  "ContainsBid (bid_allowedStatusTransition CanceledBid) status = False"
  by (simp add: bid_allowedStatusTransition_def CanceledBid_def CreatedBid_def PublishedBid_def)

lemma UpdateTenderStatus_closed:
  assumes sel: "select_tender tenderId (tables dbPool) = Some t"
    and closed: "Tender.Status t = ClosedTender"
  shows "(\<exists>err. fst (TenderService_UpdateTenderStatus dbPool tenderId status username) = Inl err) \<and>
         tables (snd (TenderService_UpdateTenderStatus dbPool tenderId status username)) =
           tables dbPool \<and>
         (status \<noteq> [] \<and> faults dbPool = [] \<and> username \<noteq> [] \<and>
          list_ex (\<lambda>e. emp_username e = username) (tbl_employee (tables dbPool)) \<and>
          is_authorized (tables dbPool) username tenderId \<longrightarrow>
          fst (TenderService_UpdateTenderStatus dbPool tenderId status username) =
            Inl (ErrorResponse StatusBadRequest ''invalid tender status''))"
proof -
  obtain r p1 where g: "tender_user_gate dbPool username tenderId
                          ''internal server error'' ''internal server error'' = (r, p1)"
    by (cases "tender_user_gate dbPool username tenderId
                 ''internal server error'' ''internal server error''")
  from g have t1: "tables p1 = tables dbPool"
    using tender_user_gate_tables [of dbPool username tenderId
            "''internal server error''" "''internal server error''"] by simp
  obtain r2 p2 where q: "GetTenderById p1 tenderId = (r2, p2)"
    by (cases "GetTenderById p1 tenderId")
  have t2: "tables p2 = tables dbPool"
    using q t1 QueryRow_tables [of p1 "select_tender tenderId"] by (simp add: GetTenderById_def)
  have cur: "r2 = Inr currentTender \<Longrightarrow> currentTender = t" for currentTender
    using q QueryRow_Inr [of p1 "select_tender tenderId" currentTender p2] sel t1
    by (simp add: GetTenderById_def)
  have general: "(\<exists>err. fst (TenderService_UpdateTenderStatus dbPool tenderId status username) = Inl err) \<and>
         tables (snd (TenderService_UpdateTenderStatus dbPool tenderId status username)) =
           tables dbPool"
    using g q t1 t2 cur closed
    by (cases r; cases r2) (auto simp: TenderService_UpdateTenderStatus_def)
  have "fst (TenderService_UpdateTenderStatus dbPool tenderId status username) =
            Inl (ErrorResponse StatusBadRequest ''invalid tender status'')"
    if "status \<noteq> []" "faults dbPool = []" "username \<noteq> []"
      "list_ex (\<lambda>e. emp_username e = username) (tbl_employee (tables dbPool))"
      "is_authorized (tables dbPool) username tenderId"
    using that sel closed
    by (simp add: TenderService_UpdateTenderStatus_def tender_user_gate_pass GetTenderById_def
          QueryRow_no_faults)
  with general show ?thesis by blast
qed


lemma bid_user_exists_tables [simp]:
  "tables (snd (bid_user_exists p username)) = tables p"
  by (auto simp: bid_user_exists_def CheckUserExists_def QueryRow_def statement_def
        split: prod.splits sum.splits if_splits)

lemma bid_user_exists_tablesD:
  "bid_user_exists p username = (r, p') \<Longrightarrow> tables p' = tables p"
  using bid_user_exists_tables [of p username] by simp

lemma bid_user_exists_pass:
  assumes "faults p = []"
    and "list_ex (\<lambda>e. emp_username e = username) (tbl_employee (tables p))"
  shows "bid_user_exists p username = (Inr (), p)"
  using assms by (simp add: bid_user_exists_def CheckUserExists_def QueryRow_no_faults)

lemma UpdateBidStatus_canceled:
  assumes sel: "select_bid bidId (tables dbPool) = Some b"
    and canceled: "Bid.Status b = CanceledBid"
  shows "(\<exists>err. fst (BidService_UpdateBidStatus dbPool bidId status username) = Inl err) \<and>
         tables (snd (BidService_UpdateBidStatus dbPool bidId status username)) = tables dbPool \<and>
         (status \<noteq> [] \<and> faults dbPool = [] \<and> username \<noteq> [] \<and>
          list_ex (\<lambda>e. emp_username e = username) (tbl_employee (tables dbPool)) \<and>
          is_authorized_for_bid (tables dbPool) username bidId \<longrightarrow>
          fst (BidService_UpdateBidStatus dbPool bidId status username) =
            Inl (ErrorResponse StatusBadRequest ''invalid bid status''))"
proof -
  let ?gate = "if username \<noteq> [] then
              (case bid_user_exists dbPool username of
                 (Inl err, p1) \<Rightarrow> (Inl err, p1)
               | (Inr _, p1) \<Rightarrow>
                   (case CheckUserAuthorizedForBid p1 username bidId of
                      (Inl err, p2) \<Rightarrow>
                        (Inl (ErrorResponse StatusInternalServerError
                                ''failed to check user authorization''), p2)
                    | (Inr isAuthorized, p2) \<Rightarrow>
                        if \<not> isAuthorized
                        then (Inl (ErrorResponse StatusForbidden
                                ''user is not authorized to view bids for this tender''), p2)
                        else (Inr (), p2)))
            else (Inr (), dbPool)"
  obtain r p2 where g: "?gate = (r, p2)" by (cases ?gate)
  have t2: "tables p2 = tables dbPool"
  proof -
    have "tables (snd ?gate) = tables dbPool"
      by (auto simp: CheckUserAuthorizedForBid_def QueryRow_def statement_def
            split: prod.splits sum.splits if_splits dest: bid_user_exists_tablesD)
    with g show ?thesis by simp
  qed
  obtain r3 p3 where q: "GetBidById p2 bidId = (r3, p3)" by (cases "GetBidById p2 bidId")
  have t3: "tables p3 = tables dbPool"
    using q t2 QueryRow_tables [of p2 "select_bid bidId"] by (simp add: GetBidById_def)
  have cur: "r3 = Inr currentBid \<Longrightarrow> currentBid = b" for currentBid
    using q QueryRow_Inr [of p2 "select_bid bidId" currentBid p3] sel t2
    by (simp add: GetBidById_def)
  have unfolded: "BidService_UpdateBidStatus dbPool bidId status username =
     (if status = [] \<or> username = []
      then (Inl (ErrorResponse StatusBadRequest
                   ''missing required query parameters: username or status''), dbPool)
      else (case r of Inl err \<Rightarrow> (Inl err, p2)
            | Inr _ \<Rightarrow>
               (case r3 of Inl err \<Rightarrow> (Inl (ErrorResponse StatusNotFound ''bid not found''), p3)
                | Inr currentBid \<Rightarrow>
                    if \<not> ContainsBid (bid_allowedStatusTransition (Bid.Status currentBid)) status
                    then (Inl (ErrorResponse StatusBadRequest ''invalid bid status''), p3)
                    else BidRepository_UpdateBidStatus p3 bidId status)))"
    unfolding BidService_UpdateBidStatus_def g using q
    by (simp split: sum.splits)
  have general: "(\<exists>err. fst (BidService_UpdateBidStatus dbPool bidId status username) = Inl err) \<and>
         tables (snd (BidService_UpdateBidStatus dbPool bidId status username)) = tables dbPool"
    unfolding unfolded using t2 t3 cur canceled
    by (cases r; cases r3) auto
  have "fst (BidService_UpdateBidStatus dbPool bidId status username) =
            Inl (ErrorResponse StatusBadRequest ''invalid bid status'')"
    if "status \<noteq> []" "faults dbPool = []" "username \<noteq> []"
      "list_ex (\<lambda>e. emp_username e = username) (tbl_employee (tables dbPool))"
      "is_authorized_for_bid (tables dbPool) username bidId"
    using that sel canceled
    by (simp add: BidService_UpdateBidStatus_def bid_user_exists_pass GetBidById_def
          CheckUserAuthorizedForBid_def QueryRow_no_faults)
  with general show ?thesis by blast
qed


subsection \<open>The two writes of a decision\<close>

lemma SubmitBidDecision_approved_success:
  assumes "BidRepository_SubmitBidDecision DB bidId ApprovedBid = (Inr bid, DB')"
  shows "\<exists>bid0. select_bid bidId (tables DB) = Some bid0 \<and>
           bid = bid0\<lparr>Bid.Status := ApprovedBid\<rparr> \<and>
           tbl_bid (tables DB') =
             map (\<lambda>b. if Bid.ID b = bidId then b\<lparr>Bid.Status := ApprovedBid\<rparr> else b)
               (tbl_bid (tables DB)) \<and>
           tbl_tender (tables DB') =
             map (\<lambda>t. if Tender.ID t = Bid.TenderId bid then t\<lparr>Tender.Status := ClosedTender\<rparr> else t)
               (tbl_tender (tables DB))"
proof -
  from assms obtain bid0 DB1 DB2 where
    q1: "QueryRow DB (select_bid bidId) = (Inr bid0, DB1)"
    and e2: "Exec DB1 (update_bid bidId (\<lambda>b. b\<lparr>Bid.Status := ApprovedBid\<rparr>)) = (Inr (), DB2)"
    and e3: "Exec DB2 (update_tender (Bid.TenderId bid0) (\<lambda>t. t\<lparr>Tender.Status := ClosedTender\<rparr>)) =
               (Inr (), DB')"
    and b: "bid = bid0\<lparr>Bid.Status := ApprovedBid\<rparr>"
    by (auto simp: BidRepository_SubmitBidDecision_def Let_def
          split: prod.splits sum.splits if_splits)
  from QueryRow_Inr [OF q1] have sel: "select_bid bidId (tables DB) = Some bid0"
    and t1: "tables DB1 = tables DB" by simp_all
  from Exec_Inr [OF e2] t1
  have t2: "tables DB2 = update_bid bidId (\<lambda>b. b\<lparr>Bid.Status := ApprovedBid\<rparr>) (tables DB)"
    by simp
  from Exec_Inr [OF e3] t2
  have t3: "tables DB' =
              update_tender (Bid.TenderId bid0) (\<lambda>t. t\<lparr>Tender.Status := ClosedTender\<rparr>)
                (update_bid bidId (\<lambda>b. b\<lparr>Bid.Status := ApprovedBid\<rparr>) (tables DB))"
    by simp
  show ?thesis using sel b by (simp add: t3 update_tender_def update_bid_def)
qed

lemma SubmitBidDecision_failure:
  assumes "BidRepository_SubmitBidDecision DB bidId decision = (Inl err, DB')"
  shows "tbl_tender (tables DB') = tbl_tender (tables DB) \<and>
         (tbl_bid (tables DB') = tbl_bid (tables DB) \<or>
          tbl_bid (tables DB') =
            map (\<lambda>b. if Bid.ID b = bidId then b\<lparr>Bid.Status := decision\<rparr> else b)
              (tbl_bid (tables DB)))"
  using assms
  by (auto simp: BidRepository_SubmitBidDecision_def Let_def update_bid_def
        dest!: QueryRow_Inr QueryRow_Inl Exec_Inr Exec_Inl
        split: prod.splits sum.splits if_splits)

lemma SubmitBidDecision_tender_write_fails:
  assumes "select_bid bidId (tables DB) = Some bid0"
    and "faults DB = NoFault # NoFault # f # rest" and "f \<noteq> NoFault"
  shows "BidRepository_SubmitBidDecision DB bidId ApprovedBid =
           (Inl StoreFailure,
            \<lparr>tables = update_bid bidId (\<lambda>b. b\<lparr>Bid.Status := ApprovedBid\<rparr>) (tables DB),
             faults = rest\<rparr>)"
  using assms
  by (simp add: BidRepository_SubmitBidDecision_def QueryRow_def Exec_def statement_def
        next_fails_def Let_def)

subsection \<open>The responsibility check of a listing\<close>

lemma CheckUserResponsible_tables [simp]:
  "tables (snd (CheckUserResponsibleForOrganization p user organizationId)) = tables p"
  by (simp add: CheckUserResponsibleForOrganization_def)

lemma scan_user_tenders_tables [simp]:
  "tables (snd (scan_user_tenders DB username rows tenders)) = tables DB"
proof (induction rows arbitrary: DB tenders)
  case Nil
  show ?case by simp
next
  case (Cons t rows)
  obtain r DB1 where c: "CheckUserResponsibleForOrganization DB username (Tender.OrganizationID t) = (r, DB1)"
    by (cases "CheckUserResponsibleForOrganization DB username (Tender.OrganizationID t)")
  then have "tables DB1 = tables DB"
    using CheckUserResponsible_tables [of DB username "Tender.OrganizationID t"] by simp
  with c Cons.IH [of DB1] show ?case
    by (cases r) auto
qed

lemma scan_user_tenders_not_responsible:
  assumes "list_ex (\<lambda>t. \<not> is_responsible (tables DB) username (Tender.OrganizationID t)) rows"
  shows "(\<exists>err. fst (scan_user_tenders DB username rows tenders) = Inl err) \<and>
         (faults DB = [] \<longrightarrow>
            scan_user_tenders DB username rows tenders =
              (Inl (ErrorResponse StatusForbidden
                 ''you do not have permission to view tenders for this organization''), DB))"
  using assms
proof (induction rows arbitrary: DB tenders)
  case Nil
  then show ?case by simp
next
  case (Cons t rows)
  obtain r DB1 where c: "CheckUserResponsibleForOrganization DB username (Tender.OrganizationID t) = (r, DB1)"
    by (cases "CheckUserResponsibleForOrganization DB username (Tender.OrganizationID t)")
  show ?case
  proof (cases r)
    case (Inl e)
    with c have "fst (scan_user_tenders DB username (t # rows) tenders) =
                   Inl (ErrorResponse StatusInternalServerError ''failed to check responsibility'')"
      by simp
    moreover have "faults DB \<noteq> []"
      using c Inl by (auto simp: CheckUserResponsibleForOrganization_def QueryRow_no_faults)
    ultimately show ?thesis by simp
  next
    case (Inr isResponsible)
    with c have ir: "isResponsible = is_responsible (tables DB) username (Tender.OrganizationID t)"
      and t1: "tables DB1 = tables DB" and f1: "faults DB1 = tl (faults DB)"
      using QueryRow_Inr [of DB _ isResponsible DB1]
      by (auto simp: CheckUserResponsibleForOrganization_def)
    show ?thesis
    proof (cases isResponsible)
      case False
      have "faults DB = [] \<Longrightarrow> DB1 = DB"
        using c by (simp add: CheckUserResponsibleForOrganization_def QueryRow_no_faults)
      with False c Inr show ?thesis by auto
    next
      case True
      with ir Cons.prems t1
      have "list_ex (\<lambda>t. \<not> is_responsible (tables DB1) username (Tender.OrganizationID t)) rows"
        by simp
      from Cons.IH [OF this, of "tenders @ [t]"] f1
      have "(\<exists>err. fst (scan_user_tenders DB1 username rows (tenders @ [t])) = Inl err) \<and>
            (faults DB = [] \<longrightarrow>
               scan_user_tenders DB1 username rows (tenders @ [t]) =
                 (Inl (ErrorResponse StatusForbidden
                    ''you do not have permission to view tenders for this organization''), DB1))"
        by simp
      moreover have "faults DB = [] \<Longrightarrow> DB1 = DB"
        using c by (simp add: CheckUserResponsibleForOrganization_def QueryRow_no_faults)
      ultimately show ?thesis using c Inr True by auto
    qed
  qed
qed


lemma QueryRow_tablesD: "QueryRow p q = (r, p') \<Longrightarrow> tables p' = tables p"
  using QueryRow_tables [of p q] by simp

lemma Atoi_nonempty: "Atoi s = Some n \<Longrightarrow> s \<noteq> []"
  by (auto simp: Atoi_def)

lemma Query_tables [simp]: "tables (snd (Query p q)) = tables p"
  by (simp add: Query_def split: list.splits fault.splits)

lemma Query_no_faults:
  "faults p = [] \<Longrightarrow>
     Query p q =
       (Inr (case q (tables p) of Inl err \<Rightarrow> ([], Some err) | Inr rows \<Rightarrow> (rows, None)), p)"
  by (simp add: Query_def)

lemma Query_rows:
  assumes "Query p q = (Inr (rows, rowsErr), p')" and "q (tables p) = Inr page"
  shows "(\<exists>n. rows = take n page) \<and> tables p' = tables p \<and> faults p' = tl (faults p)"
  using assms
  by (auto simp: Query_def split: list.splits fault.splits intro: exI [of _ "length page"])

text \<open>A listing that is returned holds the rows that arrived, each of them checked.\<close>

lemma scan_user_tenders_Inr:
  assumes "scan_user_tenders DB username rows acc = (Inr tenders, DB')"
  shows "tenders = acc @ rows \<and>
         list_all (\<lambda>t. is_responsible (tables DB) username (Tender.OrganizationID t)) rows"
  using assms
proof (induction rows arbitrary: DB acc)
  case Nil
  then show ?case by simp
next
  case (Cons t rows)
  obtain r DB1 where c: "CheckUserResponsibleForOrganization DB username (Tender.OrganizationID t) = (r, DB1)"
    by (cases "CheckUserResponsibleForOrganization DB username (Tender.OrganizationID t)")
  from Cons.prems c obtain isResponsible where r: "r = Inr isResponsible"
    by (cases r) auto
  from c r have ir: "isResponsible = is_responsible (tables DB) username (Tender.OrganizationID t)"
    and t1: "tables DB1 = tables DB"
    using QueryRow_Inr [of DB _ isResponsible DB1]
    by (auto simp: CheckUserResponsibleForOrganization_def)
  from Cons.prems c r have yes: "isResponsible"
    and rest: "scan_user_tenders DB1 username rows (acc @ [t]) = (Inr tenders, DB')"
    by (auto split: if_splits)
  from Cons.IH [OF rest] t1 ir yes show ?case by simp
qed

lemma GetUserTender_not_responsible:
  assumes page: "user_tender_page username limit offset (tables DB) = Inr page"
    and bad: "list_ex (\<lambda>t. \<not> is_responsible (tables DB) username (Tender.OrganizationID t)) page"
  shows "(faults DB = [] \<longrightarrow>
            TenderRepository_GetUserTender DB limit offset username =
              (Inl (ErrorResponse StatusForbidden
                 ''you do not have permission to view tenders for this organization''), DB)) \<and>
         tables (snd (TenderRepository_GetUserTender DB limit offset username)) = tables DB \<and>
         (\<forall>tenders. fst (TenderRepository_GetUserTender DB limit offset username) = Inr tenders \<longrightarrow>
            (\<exists>n. tenders = take n page) \<and> length tenders < length page \<and>
            list_all (\<lambda>t. is_responsible (tables DB) username (Tender.OrganizationID t)) tenders)"
proof -
  have forbidden: "TenderRepository_GetUserTender DB limit offset username =
              (Inl (ErrorResponse StatusForbidden
                 ''you do not have permission to view tenders for this organization''), DB)"
    if f: "faults DB = []"
  proof -
    from scan_user_tenders_not_responsible [OF bad, of "[]"] f
    have "scan_user_tenders DB username page [] =
            (Inl (ErrorResponse StatusForbidden
               ''you do not have permission to view tenders for this organization''), DB)"
      by simp
    with f page show ?thesis
      by (simp add: TenderRepository_GetUserTender_def Query_no_faults)
  qed
  obtain r DB1 where q: "Query DB (user_tender_page username limit offset) = (r, DB1)"
    by (cases "Query DB (user_tender_page username limit offset)")
  then have t1: "tables DB1 = tables DB"
    using Query_tables [of DB "user_tender_page username limit offset"] by simp
  have frame: "tables (snd (TenderRepository_GetUserTender DB limit offset username)) = tables DB"
    using q t1 scan_user_tenders_tables [of DB1 username]
    by (cases r) (auto simp: TenderRepository_GetUserTender_def)
  have returned: "(\<exists>n. tenders = take n page) \<and> length tenders < length page \<and>
        list_all (\<lambda>t. is_responsible (tables DB) username (Tender.OrganizationID t)) tenders"
    if a: "fst (TenderRepository_GetUserTender DB limit offset username) = Inr tenders"
    for tenders
  proof -
    from a q obtain rows rowsErr where r: "r = Inr (rows, rowsErr)"
      by (cases r) (auto simp: TenderRepository_GetUserTender_def)
    from Query_rows [OF q [unfolded r] page] obtain n where rows: "rows = take n page"
      by blast
    from a q r have "fst (scan_user_tenders DB1 username rows []) = Inr tenders"
      by (simp add: TenderRepository_GetUserTender_def)
    then obtain DB2 where "scan_user_tenders DB1 username rows [] = (Inr tenders, DB2)"
      by (cases "scan_user_tenders DB1 username rows []") simp
    from scan_user_tenders_Inr [OF this] t1 have same: "tenders = rows"
      and ok: "list_all (\<lambda>t. is_responsible (tables DB) username (Tender.OrganizationID t)) tenders"
      by simp_all
    have "length tenders < length page"
    proof (rule ccontr)
      assume "\<not> length tenders < length page"
      with same rows have "tenders = page" by simp
      with ok bad show False by (auto simp: list_all_iff list_ex_iff)
    qed
    with same rows ok show ?thesis by blast
  qed
  from forbidden frame returned show ?thesis by blast
qed

lemma TenderService_GetUserTender_reaches_repository:
  assumes "ParseLimitOffset limitStr offsetStr = Inr (limit, offset)"
    and "fst (TenderService_GetUserTender dbPool limitStr offsetStr username) = Inr tenders"
  shows "\<exists>p. tables p = tables dbPool \<and>
             fst (TenderRepository_GetUserTender p limit offset username) = Inr tenders"
proof (cases "username = []")
  case True
  with assms show ?thesis
    by (auto simp: TenderService_GetUserTender_def)
next
  case False
  obtain r p1 where c: "CheckUserExists dbPool username = (r, p1)"
    by (cases "CheckUserExists dbPool username")
  then have "tables p1 = tables dbPool"
    by (auto simp: CheckUserExists_def dest: QueryRow_tablesD)
  with assms c False show ?thesis
    by (cases r) (auto simp: TenderService_GetUserTender_def split: if_splits)
qed

lemma TenderService_GetUserTender_not_responsible:
  assumes parse: "ParseLimitOffset limitStr offsetStr = Inr (limit, offset)"
    and page: "user_tender_page username limit offset (tables dbPool) = Inr page"
    and bad: "list_ex (\<lambda>t. \<not> is_responsible (tables dbPool) username (Tender.OrganizationID t)) page"
  shows "(faults dbPool = [] \<and>
          (username = [] \<or> list_ex (\<lambda>e. emp_username e = username) (tbl_employee (tables dbPool)))
          \<longrightarrow>
            TenderService_GetUserTender dbPool limitStr offsetStr username =
              (Inl (ErrorResponse StatusForbidden
                 ''you do not have permission to view tenders for this organization''), dbPool)) \<and>
         (\<forall>tenders. fst (TenderService_GetUserTender dbPool limitStr offsetStr username) = Inr tenders \<longrightarrow>
            (\<exists>n. tenders = take n page) \<and> length tenders < length page \<and>
            list_all (\<lambda>t. is_responsible (tables dbPool) username (Tender.OrganizationID t)) tenders)"
proof -
  have forbidden: "TenderService_GetUserTender dbPool limitStr offsetStr username =
              (Inl (ErrorResponse StatusForbidden
                 ''you do not have permission to view tenders for this organization''), dbPool)"
    if "faults dbPool = [] \<and>
        (username = [] \<or> list_ex (\<lambda>e. emp_username e = username) (tbl_employee (tables dbPool)))"
    using that parse GetUserTender_not_responsible [OF page bad]
    by (auto simp: TenderService_GetUserTender_def CheckUserExists_def QueryRow_no_faults)
  have returned: "(\<exists>n. tenders = take n page) \<and> length tenders < length page \<and>
        list_all (\<lambda>t. is_responsible (tables dbPool) username (Tender.OrganizationID t)) tenders"
    if a: "fst (TenderService_GetUserTender dbPool limitStr offsetStr username) = Inr tenders"
    for tenders
  proof -
    from TenderService_GetUserTender_reaches_repository [OF parse a] obtain p where
      t: "tables p = tables dbPool"
      and r: "fst (TenderRepository_GetUserTender p limit offset username) = Inr tenders"
      by blast
    from GetUserTender_not_responsible [of username limit offset p page] page bad t r
    show ?thesis by simp
  qed
  from forbidden returned show ?thesis by blast
qed

subsection \<open>Rollback through the services\<close>

lemma CheckTenderExists_tablesD:
  "CheckTenderExists p tenderId = (r, p') \<Longrightarrow> tables p' = tables p"
  by (auto simp: CheckTenderExists_def dest: QueryRow_tablesD)

lemma CheckBidExists_tablesD:
  "CheckBidExists p bidId = (r, p') \<Longrightarrow> tables p' = tables p"
  by (auto simp: CheckBidExists_def dest: QueryRow_tablesD)

lemma tender_user_gate_tablesD:
  "tender_user_gate p username tenderId msg1 msg2 = (r, p') \<Longrightarrow> tables p' = tables p"
  using tender_user_gate_tables [of p username tenderId msg1 msg2] by simp

lemma TenderService_RollbackTender_missing_version:
  assumes v: "Atoi versionStr = Some version"
    and none: "\<not> list_ex (\<lambda>h. Tender.ID h = tenderId \<and> Tender.Version h = version)
                   (tbl_tender_history (tables dbPool))"
  shows "(\<exists>err. fst (TenderService_RollbackTender dbPool tenderId username versionStr) = Inl err) \<and>
         tables (snd (TenderService_RollbackTender dbPool tenderId username versionStr)) =
           tables dbPool \<and>
         (faults dbPool = [] \<and> tenderId \<noteq> [] \<and> username \<noteq> [] \<and>
          list_ex (\<lambda>e. emp_username e = username) (tbl_employee (tables dbPool)) \<and>
          is_authorized (tables dbPool) username tenderId \<longrightarrow>
          fst (TenderService_RollbackTender dbPool tenderId username versionStr) = Inl ErrNoRows)"
proof -
  have repo: "(\<exists>err. fst (TenderRepository_RollbackTender p tenderId version) = Inl err) \<and>
              tables (snd (TenderRepository_RollbackTender p tenderId version)) = tables dbPool"
    if "tables p = tables dbPool" for p
    using RollbackTender_missing_version [of tenderId version p] none that by auto
  have general: "(\<exists>err. fst (TenderService_RollbackTender dbPool tenderId username versionStr) = Inl err) \<and>
         tables (snd (TenderService_RollbackTender dbPool tenderId username versionStr)) =
           tables dbPool"
  proof -
    obtain r1 p1 where c: "CheckTenderExists dbPool tenderId = (r1, p1)"
      by (cases "CheckTenderExists dbPool tenderId")
    obtain r2 p2 where g: "tender_user_gate p1 username tenderId
                             ''internal server 1error'' ''internal server 2error'' = (r2, p2)"
      by (cases "tender_user_gate p1 username tenderId
                   ''internal server 1error'' ''internal server 2error''")
    have t1: "tables p1 = tables dbPool" using c by (rule CheckTenderExists_tablesD)
    have t2: "tables p2 = tables dbPool" using g t1 by (simp add: tender_user_gate_tablesD)
    from repo [OF t2] c g t1 t2 v show ?thesis
      by (cases r1; cases r2) (auto simp: TenderService_RollbackTender_def)
  qed
  have "fst (TenderService_RollbackTender dbPool tenderId username versionStr) = Inl ErrNoRows"
    if f: "faults dbPool = []" and "tenderId \<noteq> []" "username \<noteq> []"
      "list_ex (\<lambda>e. emp_username e = username) (tbl_employee (tables dbPool))"
      "is_authorized (tables dbPool) username tenderId"
  proof -
    from RollbackTender_missing_version [OF none] f
    have "fst (TenderRepository_RollbackTender dbPool tenderId version) = Inl ErrNoRows"
      by auto
    with that v Atoi_nonempty [OF v] show ?thesis
      by (simp add: TenderService_RollbackTender_def CheckTenderExists_def QueryRow_no_faults
            tender_user_gate_pass)
  qed
  with general show ?thesis by blast
qed

lemma BidService_RollbackBid_missing_version:
  assumes v: "Atoi versionStr = Some version"
    and none: "\<not> list_ex (\<lambda>h. BidHistory.BidID h = bidId \<and> BidHistory.Version h = version)
                   (tbl_bid_history (tables dbPool))"
  shows "(\<exists>err. fst (BidService_RollbackBid dbPool bidId username versionStr) = Inl err) \<and>
         tables (snd (BidService_RollbackBid dbPool bidId username versionStr)) = tables dbPool \<and>
         (faults dbPool = [] \<and> bidId \<noteq> [] \<and> username \<noteq> [] \<and>
          list_ex (\<lambda>e. emp_username e = username) (tbl_employee (tables dbPool)) \<longrightarrow>
          fst (BidService_RollbackBid dbPool bidId username versionStr) = Inl ErrNoRows)"
proof -
  have repo: "(\<exists>err. fst (BidRepository_RollbackBid p bidId version) = Inl err) \<and>
              tables (snd (BidRepository_RollbackBid p bidId version)) = tables dbPool"
    if "tables p = tables dbPool" for p
    using RollbackBid_missing_version [of bidId version p] none that by auto
  have general: "(\<exists>err. fst (BidService_RollbackBid dbPool bidId username versionStr) = Inl err) \<and>
         tables (snd (BidService_RollbackBid dbPool bidId username versionStr)) = tables dbPool"
  proof -
    obtain r1 p1 where c: "CheckBidExists dbPool bidId = (r1, p1)"
      by (cases "CheckBidExists dbPool bidId")
    obtain r2 p2 where g: "bid_user_exists p1 username = (r2, p2)"
      by (cases "bid_user_exists p1 username")
    have t1: "tables p1 = tables dbPool" using c by (rule CheckBidExists_tablesD)
    have t2: "tables p2 = tables dbPool" using g t1 by (simp add: bid_user_exists_tablesD)
    from repo [OF t2] c g t1 t2 v show ?thesis
      by (cases r1; cases r2) (auto simp: BidService_RollbackBid_def)
  qed
  have "fst (BidService_RollbackBid dbPool bidId username versionStr) = Inl ErrNoRows"
    if f: "faults dbPool = []" and "bidId \<noteq> []" "username \<noteq> []"
      "list_ex (\<lambda>e. emp_username e = username) (tbl_employee (tables dbPool))"
  proof -
    from RollbackBid_missing_version [OF none] f
    have "fst (BidRepository_RollbackBid dbPool bidId version) = Inl ErrNoRows"
      by auto
    moreover from v have "versionStr \<noteq> []" by (rule Atoi_nonempty)
    ultimately show ?thesis using that v
      by (simp add: BidService_RollbackBid_def CheckBidExists_def QueryRow_no_faults
            bid_user_exists_pass)
  qed
  with general show ?thesis by blast
qed

section \<open>Pagination arguments\<close>

lemma ParseLimitOffset_bad_limit:
  assumes "limitStr \<noteq> []" and "\<And>n. Atoi limitStr = Some n \<Longrightarrow> n < 1 \<or> 50 < n"
  shows "ParseLimitOffset limitStr offsetStr = Inl invalid_limit"
proof (cases "Atoi limitStr")
  case None
  with assms(1) show ?thesis by (simp add: ParseLimitOffset_def)
next
  case (Some n)
  with assms(2) have "n \<le> 0 \<or> n > 50" by fastforce
  with Some assms(1) show ?thesis by (auto simp: ParseLimitOffset_def)
qed

lemma ParseLimitOffset_bad_offset:
  assumes "offsetStr \<noteq> []" and "\<And>n. Atoi offsetStr = Some n \<Longrightarrow> n < 0"
  shows "ParseLimitOffset limitStr offsetStr = Inl invalid_limit \<or>
         ParseLimitOffset limitStr offsetStr = Inl invalid_offset"
proof (cases "Atoi offsetStr")
  case None
  with assms(1) show ?thesis
    by (simp add: ParseLimitOffset_def split: option.split)
next
  case (Some n)
  with assms(2) have "n < 0" by simp
  with Some assms(1) show ?thesis
    by (simp add: ParseLimitOffset_def split: option.split)
qed

lemma GetUserTender_parse_error:
  assumes "ParseLimitOffset limitStr offsetStr = Inl msg"
  shows "(\<exists>err. fst (TenderService_GetUserTender dbPool limitStr offsetStr username) = Inl err) \<and>
         tables (snd (TenderService_GetUserTender dbPool limitStr offsetStr username)) = tables dbPool \<and>
         (username = [] \<or> (\<not> next_fails dbPool \<and>
             list_ex (\<lambda>e. emp_username e = username) (tbl_employee (tables dbPool))) \<longrightarrow>
          fst (TenderService_GetUserTender dbPool limitStr offsetStr username) =
            Inl (ErrorResponse StatusBadRequest msg))"
  using assms
  by (auto simp: TenderService_GetUserTender_def CheckUserExists_def QueryRow_def statement_def
           split: prod.split sum.split if_splits)

text \<open>
  C9. A limit that is given (a non-empty string) and is not an integer from 1 to 50, or an
  offset that is given and is not a non-negative integer, is rejected:
  \<^verbatim>\<open>ParseLimitOffset\<close> returns one of its two errors, the limit's whenever the limit
  is the bad one, and never a clamped pair. The tender listing of a user then returns no
  tenders and leaves the tables alone; its error is the 400 response carrying that message
  as soon as the user check that precedes the parsing passes (no username, or a known user
  and a store that answers).
\<close>

theorem listing_rejects_bad_limit_offset:
  assumes "(limitStr \<noteq> [] \<and> (\<forall>n. Atoi limitStr = Some n \<longrightarrow> n < 1 \<or> 50 < n)) \<or>
           (offsetStr \<noteq> [] \<and> (\<forall>n. Atoi offsetStr = Some n \<longrightarrow> n < 0))"
  shows "\<exists>msg. ParseLimitOffset limitStr offsetStr = Inl msg \<and>
           (msg = invalid_limit \<or> msg = invalid_offset) \<and>
           (limitStr \<noteq> [] \<and> (\<forall>n. Atoi limitStr = Some n \<longrightarrow> n < 1 \<or> 50 < n)
              \<longrightarrow> msg = invalid_limit) \<and>
           (\<exists>err. fst (TenderService_GetUserTender dbPool limitStr offsetStr username) = Inl err) \<and>
           tables (snd (TenderService_GetUserTender dbPool limitStr offsetStr username)) =
             tables dbPool \<and>
           (username = [] \<or> (\<not> next_fails dbPool \<and>
               list_ex (\<lambda>e. emp_username e = username) (tbl_employee (tables dbPool))) \<longrightarrow>
            fst (TenderService_GetUserTender dbPool limitStr offsetStr username) =
              Inl (ErrorResponse StatusBadRequest msg))"
proof -
  have "ParseLimitOffset limitStr offsetStr = Inl invalid_limit \<or>
        ParseLimitOffset limitStr offsetStr = Inl invalid_offset"
    using assms ParseLimitOffset_bad_limit ParseLimitOffset_bad_offset by blast
  then obtain msg where msg: "ParseLimitOffset limitStr offsetStr = Inl msg"
    and kind: "msg = invalid_limit \<or> msg = invalid_offset"
    by blast
  have "limitStr \<noteq> [] \<and> (\<forall>n. Atoi limitStr = Some n \<longrightarrow> n < 1 \<or> 50 < n)
          \<longrightarrow> msg = invalid_limit"
    using msg ParseLimitOffset_bad_limit [of limitStr offsetStr] by auto
  with msg kind GetUserTender_parse_error [OF msg, of dbPool username] show ?thesis
    by blast
qed

theorem listing_rejects_bad_limit_offset_witness:
  "ParseLimitOffset ''51'' [] = Inl invalid_limit \<and>
   ParseLimitOffset ''5'' ''-1'' = Inl invalid_offset \<and>
   TenderService_GetUserTender empty_pool ''51'' [] [] =
     (Inl (ErrorResponse StatusBadRequest invalid_limit), empty_pool)"
proof -
  have a51: "Atoi ''51'' = Some 51" by code_simp
  have h: "(''51'' \<noteq> [] \<and> (\<forall>n. Atoi ''51'' = Some n \<longrightarrow> n < 1 \<or> 50 < n)) \<or>
           ([] \<noteq> [] \<and> (\<forall>n. Atoi [] = Some n \<longrightarrow> n < 0))"
    by (simp add: a51)
  have l: "ParseLimitOffset ''51'' [] = Inl invalid_limit"
    and s: "fst (TenderService_GetUserTender empty_pool ''51'' [] []) =
              Inl (ErrorResponse StatusBadRequest invalid_limit)"
    using listing_rejects_bad_limit_offset [OF h, of empty_pool "[]"] h by auto
  have o: "ParseLimitOffset ''5'' ''-1'' = Inl invalid_offset" by code_simp
  have "snd (TenderService_GetUserTender empty_pool ''51'' [] []) = empty_pool"
    by (simp add: TenderService_GetUserTender_def l)
  with l s o show ?thesis by (simp add: prod_eq_iff)
qed

section \<open>Status changes and content edits\<close>




section \<open>Terminal statuses\<close>

text \<open>
  C5. A tender that is Closed, or a bid that is Canceled, takes no status change: whatever
  status is asked for (the same one included) and whoever asks, the call returns an error
  and the tables (so the status) are as before. When the checks that precede the
  transition check pass (status and username given, a known user who is authorized, a
  store that answers), the error is the 400 response of the transition check.
\<close>

theorem terminal_status_takes_no_change:
  "(select_tender tenderId (tables dbPool) = Some t \<and> Tender.Status t = ClosedTender \<longrightarrow>
      (\<exists>err. fst (TenderService_UpdateTenderStatus dbPool tenderId status username) = Inl err) \<and>
      tables (snd (TenderService_UpdateTenderStatus dbPool tenderId status username)) =
        tables dbPool \<and>
      (status \<noteq> [] \<and> faults dbPool = [] \<and> username \<noteq> [] \<and>
       list_ex (\<lambda>e. emp_username e = username) (tbl_employee (tables dbPool)) \<and>
       is_authorized (tables dbPool) username tenderId \<longrightarrow>
       fst (TenderService_UpdateTenderStatus dbPool tenderId status username) =
         Inl (ErrorResponse StatusBadRequest ''invalid tender status''))) \<and>
   (select_bid bidId (tables dbPool) = Some b \<and> Bid.Status b = CanceledBid \<longrightarrow>
      (\<exists>err. fst (BidService_UpdateBidStatus dbPool bidId status username) = Inl err) \<and>
      tables (snd (BidService_UpdateBidStatus dbPool bidId status username)) = tables dbPool \<and>
      (status \<noteq> [] \<and> faults dbPool = [] \<and> username \<noteq> [] \<and>
       list_ex (\<lambda>e. emp_username e = username) (tbl_employee (tables dbPool)) \<and>
       is_authorized_for_bid (tables dbPool) username bidId \<longrightarrow>
       fst (BidService_UpdateBidStatus dbPool bidId status username) =
         Inl (ErrorResponse StatusBadRequest ''invalid bid status'')))"
  using UpdateTenderStatus_closed [of tenderId dbPool t status username]
    UpdateBidStatus_canceled [of bidId dbPool b status username]
  by blast

theorem terminal_status_takes_no_change_witness:
  "select_tender ''T1'' (tables closed_pool) =
     Some (road_repair_row\<lparr>Tender.Status := ClosedTender\<rparr>) \<and>
   is_authorized (tables closed_pool) ''alice'' ''T1'' \<and>
   fst (TenderService_UpdateTenderStatus closed_pool ''T1'' ClosedTender ''alice'') =
     Inl (ErrorResponse StatusBadRequest ''invalid tender status'') \<and>
   fst (TenderService_UpdateTenderStatus closed_pool ''T1'' PublishedTender ''alice'') =
     Inl (ErrorResponse StatusBadRequest ''invalid tender status'') \<and>
   tables (snd (TenderService_UpdateTenderStatus closed_pool ''T1'' PublishedTender ''alice'')) =
     tables closed_pool \<and>
   select_bid ''B1'' (tables closed_pool) =
     Some (asphalt_offer_row\<lparr>Bid.Status := CanceledBid\<rparr>) \<and>
   is_authorized_for_bid (tables closed_pool) ''bob'' ''B1'' \<and>
   fst (BidService_UpdateBidStatus closed_pool ''B1'' CanceledBid ''bob'') =
     Inl (ErrorResponse StatusBadRequest ''invalid bid status'') \<and>
   fst (BidService_UpdateBidStatus closed_pool ''B1'' CreatedBid ''bob'') =
     Inl (ErrorResponse StatusBadRequest ''invalid bid status'') \<and>
   tables (snd (BidService_UpdateBidStatus closed_pool ''B1'' CreatedBid ''bob'')) =
     tables closed_pool"
proof -
  let ?t = "road_repair_row\<lparr>Tender.Status := ClosedTender\<rparr>"
  let ?b = "asphalt_offer_row\<lparr>Bid.Status := CanceledBid\<rparr>"
  have st: "select_tender ''T1'' (tables closed_pool) = Some ?t" by code_simp
  have sb: "select_bid ''B1'' (tables closed_pool) = Some ?b" by code_simp
  have ct: "Tender.Status ?t = ClosedTender" by simp
  have cb: "Bid.Status ?b = CanceledBid" by simp
  have f: "faults closed_pool = []" by code_simp
  have ua: "list_ex (\<lambda>e. emp_username e = ''alice'') (tbl_employee (tables closed_pool))"
    by code_simp
  have ub: "list_ex (\<lambda>e. emp_username e = ''bob'') (tbl_employee (tables closed_pool))"
    by code_simp
  have aa: "is_authorized (tables closed_pool) ''alice'' ''T1''" by code_simp
  have ab: "is_authorized_for_bid (tables closed_pool) ''bob'' ''B1''" by code_simp
  have n1: "ClosedTender \<noteq> []" "PublishedTender \<noteq> []" "CanceledBid \<noteq> []" "CreatedBid \<noteq> []"
    by (simp_all add: ClosedTender_def PublishedTender_def CanceledBid_def CreatedBid_def)
  note T = terminal_status_takes_no_change [THEN conjunct1, rule_format, OF conjI [OF st ct]]
  note B = terminal_status_takes_no_change [THEN conjunct2, rule_format, OF conjI [OF sb cb]]
  have t1: "fst (TenderService_UpdateTenderStatus closed_pool ''T1'' ClosedTender ''alice'') =
              Inl (ErrorResponse StatusBadRequest ''invalid tender status'')"
    using T [of ClosedTender "''alice''"] n1 f ua aa by simp
  have t2: "fst (TenderService_UpdateTenderStatus closed_pool ''T1'' PublishedTender ''alice'') =
              Inl (ErrorResponse StatusBadRequest ''invalid tender status'')"
    using T [of PublishedTender "''alice''"] n1 f ua aa by simp
  have t3: "tables (snd (TenderService_UpdateTenderStatus closed_pool ''T1'' PublishedTender ''alice'')) =
              tables closed_pool"
    using T [of PublishedTender "''alice''"] by simp
  have b1: "fst (BidService_UpdateBidStatus closed_pool ''B1'' CanceledBid ''bob'') =
              Inl (ErrorResponse StatusBadRequest ''invalid bid status'')"
    using B [of CanceledBid "''bob''"] n1 f ub ab by simp
  have b2: "fst (BidService_UpdateBidStatus closed_pool ''B1'' CreatedBid ''bob'') =
              Inl (ErrorResponse StatusBadRequest ''invalid bid status'')"
    using B [of CreatedBid "''bob''"] n1 f ub ab by simp
  have b3: "tables (snd (BidService_UpdateBidStatus closed_pool ''B1'' CreatedBid ''bob'')) =
              tables closed_pool"
    using B [of CreatedBid "''bob''"] by simp
  show ?thesis
    by (intro conjI) (fact st aa t1 t2 t3 sb ab b1 b2 b3)+
qed

section \<open>Rollback\<close>

lemma list_all_updated_tender:
  assumes "\<And>x. Tender.ID x = k \<Longrightarrow> P (g x)"
  shows "list_all (\<lambda>x. Tender.ID x \<noteq> k \<or> P x)
           (map (\<lambda>x. if Tender.ID x = k then g x else x) xs)"
  using assms by (induction xs) auto

lemma list_all_updated_bid:
  assumes "\<And>x. Bid.ID x = k \<Longrightarrow> P (g x)"
  shows "list_all (\<lambda>x. Bid.ID x \<noteq> k \<or> P x)
           (map (\<lambda>x. if Bid.ID x = k then g x else x) xs)"
  using assms by (induction xs) auto

text \<open>
  C8. A rollback that succeeds has taken its target from the history table: a row of the
  requested id and the requested version (the first such row of the table, no row before
  it having that id and version). The status of the live row afterwards (the row the call
  returns, and every row of the entity's id in the table) is the status recorded in that
  row, and so are the content fields: the status is restored together with them. In
  particular, a status that every history row of that id and version records is the
  status of the live row after the rollback.
\<close>

theorem rollback_restores_status:
  "(TenderRepository_RollbackTender DB tenderId version = (Inr t, DB') \<longrightarrow>
      (\<exists>before target after.
         tbl_tender_history (tables DB) = before @ target # after \<and>
         Tender.ID target = tenderId \<and> Tender.Version target = version \<and>
         \<not> list_ex (\<lambda>h. Tender.ID h = tenderId \<and> Tender.Version h = version) before \<and>
         Tender.Status t = Tender.Status target \<and>
         Tender.Name t = Tender.Name target \<and>
         Tender.Description t = Tender.Description target \<and>
         Tender.ServiceType t = Tender.ServiceType target \<and>
         select_tender tenderId (tables DB') = Some t \<and>
         list_all (\<lambda>x. Tender.ID x \<noteq> tenderId \<or> Tender.Status x = Tender.Status target)
           (tbl_tender (tables DB'))) \<and>
      (list_all (\<lambda>h. Tender.ID h = tenderId \<and> Tender.Version h = version \<longrightarrow>
                      Tender.Status h = tenderStatus)
         (tbl_tender_history (tables DB)) \<longrightarrow>
       Tender.Status t = tenderStatus \<and>
       list_all (\<lambda>x. Tender.ID x \<noteq> tenderId \<or> Tender.Status x = tenderStatus)
         (tbl_tender (tables DB')))) \<and>
   (BidRepository_RollbackBid DB bidId version = (Inr b, DB') \<longrightarrow>
      (\<exists>before target after.
         tbl_bid_history (tables DB) = before @ target # after \<and>
         BidHistory.BidID target = bidId \<and> BidHistory.Version target = version \<and>
         \<not> list_ex (\<lambda>h. BidHistory.BidID h = bidId \<and> BidHistory.Version h = version) before \<and>
         Bid.Status b = BidHistory.Status target \<and>
         Bid.Name b = BidHistory.Name target \<and>
         Bid.Description b = BidHistory.Description target \<and>
         select_bid bidId (tables DB') = Some b \<and>
         list_all (\<lambda>x. Bid.ID x \<noteq> bidId \<or> Bid.Status x = BidHistory.Status target)
           (tbl_bid (tables DB'))) \<and>
      (list_all (\<lambda>h. BidHistory.BidID h = bidId \<and> BidHistory.Version h = version \<longrightarrow>
                      BidHistory.Status h = bidStatus)
         (tbl_bid_history (tables DB)) \<longrightarrow>
       Bid.Status b = bidStatus \<and>
       list_all (\<lambda>x. Bid.ID x \<noteq> bidId \<or> Bid.Status x = bidStatus) (tbl_bid (tables DB'))))"
proof (intro conjI impI)
  assume a: "TenderRepository_RollbackTender DB tenderId version = (Inr t, DB')"
  from RollbackTender_success [OF a] obtain old target where
    target: "select_tender_history tenderId version (tables DB) = Some target"
    and t: "t = old\<lparr>Tender.Name := Tender.Name target,
                   Tender.Description := Tender.Description target,
                   Tender.ServiceType := Tender.ServiceType target,
                   Tender.Status := Tender.Status target,
                   Tender.Version := Tender.Version old + 1\<rparr>"
    and live: "select_tender tenderId (tables DB') = Some t"
    and tab: "tbl_tender (tables DB') =
             map (\<lambda>x. if Tender.ID x = tenderId
                      then x\<lparr>Tender.Name := Tender.Name target,
                             Tender.Description := Tender.Description target,
                             Tender.ServiceType := Tender.ServiceType target,
                             Tender.Status := Tender.Status target,
                             Tender.Version := Tender.Version x + 1\<rparr>
                      else x) (tbl_tender (tables DB))"
    by blast
  from find_Some_split [OF target [unfolded select_tender_history_def]]
  obtain before after where
    split: "tbl_tender_history (tables DB) = before @ target # after"
    and key: "Tender.ID target = tenderId" "Tender.Version target = version"
    and first: "\<not> list_ex (\<lambda>h. Tender.ID h = tenderId \<and> Tender.Version h = version) before"
    by blast
  have rows: "list_all (\<lambda>x. Tender.ID x \<noteq> tenderId \<or> Tender.Status x = Tender.Status target)
          (tbl_tender (tables DB'))"
    unfolding tab by (rule list_all_updated_tender) simp
  from split key first rows live
  show "\<exists>before target after.
         tbl_tender_history (tables DB) = before @ target # after \<and>
         Tender.ID target = tenderId \<and> Tender.Version target = version \<and>
         \<not> list_ex (\<lambda>h. Tender.ID h = tenderId \<and> Tender.Version h = version) before \<and>
         Tender.Status t = Tender.Status target \<and>
         Tender.Name t = Tender.Name target \<and>
         Tender.Description t = Tender.Description target \<and>
         Tender.ServiceType t = Tender.ServiceType target \<and>
         select_tender tenderId (tables DB') = Some t \<and>
         list_all (\<lambda>x. Tender.ID x \<noteq> tenderId \<or> Tender.Status x = Tender.Status target)
           (tbl_tender (tables DB'))"
    by (simp add: t) blast
  assume "list_all (\<lambda>h. Tender.ID h = tenderId \<and> Tender.Version h = version \<longrightarrow>
                      Tender.Status h = tenderStatus)
            (tbl_tender_history (tables DB))"
  with split key have s: "Tender.Status target = tenderStatus" by simp
  with t show "Tender.Status t = tenderStatus" by simp
  from rows s show "list_all (\<lambda>x. Tender.ID x \<noteq> tenderId \<or> Tender.Status x = tenderStatus)
         (tbl_tender (tables DB'))" by simp
next
  assume a: "BidRepository_RollbackBid DB bidId version = (Inr b, DB')"
  from RollbackBid_success [OF a] obtain old target where
    target: "select_bid_history bidId version (tables DB) = Some target"
    and b: "b = old\<lparr>Bid.Name := BidHistory.Name target,
                     Bid.Description := BidHistory.Description target,
                     Bid.Status := BidHistory.Status target,
                     Bid.AuthorType := BidHistory.AuthorType target,
                     Bid.AuthorId := BidHistory.AuthorId target,
                     Bid.Version := Bid.Version old + 1\<rparr>"
    and live: "select_bid bidId (tables DB') = Some b"
    and tab: "tbl_bid (tables DB') =
             map (\<lambda>x. if Bid.ID x = bidId
                      then x\<lparr>Bid.Name := BidHistory.Name target,
                             Bid.Description := BidHistory.Description target,
                             Bid.Status := BidHistory.Status target,
                             Bid.AuthorType := BidHistory.AuthorType target,
                             Bid.AuthorId := BidHistory.AuthorId target,
                             Bid.Version := Bid.Version x + 1\<rparr>
                      else x) (tbl_bid (tables DB))"
    by blast
  from find_Some_split [OF target [unfolded select_bid_history_def]]
  obtain before after where
    split: "tbl_bid_history (tables DB) = before @ target # after"
    and key: "BidHistory.BidID target = bidId" "BidHistory.Version target = version"
    and first: "\<not> list_ex (\<lambda>h. BidHistory.BidID h = bidId \<and> BidHistory.Version h = version) before"
    by blast
  have rows: "list_all (\<lambda>x. Bid.ID x \<noteq> bidId \<or> Bid.Status x = BidHistory.Status target)
          (tbl_bid (tables DB'))"
    unfolding tab by (rule list_all_updated_bid) simp
  from split key first rows live
  show "\<exists>before target after.
         tbl_bid_history (tables DB) = before @ target # after \<and>
         BidHistory.BidID target = bidId \<and> BidHistory.Version target = version \<and>
         \<not> list_ex (\<lambda>h. BidHistory.BidID h = bidId \<and> BidHistory.Version h = version) before \<and>
         Bid.Status b = BidHistory.Status target \<and>
         Bid.Name b = BidHistory.Name target \<and>
         Bid.Description b = BidHistory.Description target \<and>
         select_bid bidId (tables DB') = Some b \<and>
         list_all (\<lambda>x. Bid.ID x \<noteq> bidId \<or> Bid.Status x = BidHistory.Status target)
           (tbl_bid (tables DB'))"
    by (simp add: b) blast
  assume "list_all (\<lambda>h. BidHistory.BidID h = bidId \<and> BidHistory.Version h = version \<longrightarrow>
                      BidHistory.Status h = bidStatus)
            (tbl_bid_history (tables DB))"
  with split key have s: "BidHistory.Status target = bidStatus" by simp
  with b show "Bid.Status b = bidStatus" by simp
  from rows s show "list_all (\<lambda>x. Bid.ID x \<noteq> bidId \<or> Bid.Status x = bidStatus)
         (tbl_bid (tables DB'))" by simp
qed

theorem rollback_restores_status_witness:
  "TenderRepository_RollbackTender tender_closed ''T1'' 2 =
     (Inr (road_repair_row\<lparr>Tender.Description := ''Resurface the ring road'',
                            Tender.Status := PublishedTender, Tender.Version := 4\<rparr>),
      tender_reopened) \<and>
   map (\<lambda>h. (Tender.ID h, Tender.Version h, Tender.Status h))
     (tbl_tender_history (tables tender_closed)) =
     [(''T1'', 1, CreatedTender), (''T1'', 2, PublishedTender)] \<and>
   map (\<lambda>x. (Tender.ID x, Tender.Version x, Tender.Status x)) (tbl_tender (tables tender_closed)) =
     [(''T1'', 3, ClosedTender)] \<and>
   Tender.Status (road_repair_row\<lparr>Tender.Description := ''Resurface the ring road'',
                                  Tender.Status := PublishedTender, Tender.Version := 4\<rparr>) =
     PublishedTender \<and>
   select_tender ''T1'' (tables tender_reopened) =
     Some (road_repair_row\<lparr>Tender.Description := ''Resurface the ring road'',
                             Tender.Status := PublishedTender, Tender.Version := 4\<rparr>) \<and>
   BidRepository_RollbackBid bid_withdrawn ''B1'' 2 =
     (Inr (asphalt_offer_row\<lparr>Bid.Name := ''Asphalt offer, revised'',
                              Bid.Status := PublishedBid, Bid.Version := 4\<rparr>),
      bid_restored) \<and>
   map (\<lambda>h. (BidHistory.BidID h, BidHistory.Version h, BidHistory.Status h))
     (tbl_bid_history (tables bid_withdrawn)) =
     [(''B1'', 1, CreatedBid), (''B1'', 2, PublishedBid)] \<and>
   map (\<lambda>x. (Bid.ID x, Bid.Version x, Bid.Status x)) (tbl_bid (tables bid_withdrawn)) =
     [(''B1'', 3, CanceledBid)] \<and>
   Bid.Status (asphalt_offer_row\<lparr>Bid.Name := ''Asphalt offer, revised'',
                                 Bid.Status := PublishedBid, Bid.Version := 4\<rparr>) =
     PublishedBid \<and>
   select_bid ''B1'' (tables bid_restored) =
     Some (asphalt_offer_row\<lparr>Bid.Name := ''Asphalt offer, revised'',
                              Bid.Status := PublishedBid, Bid.Version := 4\<rparr>)"
proof -
  let ?t = "road_repair_row\<lparr>Tender.Description := ''Resurface the ring road'',
                             Tender.Status := PublishedTender, Tender.Version := 4\<rparr>"
  let ?b = "asphalt_offer_row\<lparr>Bid.Name := ''Asphalt offer, revised'',
                               Bid.Status := PublishedBid, Bid.Version := 4\<rparr>"
  have rt: "TenderRepository_RollbackTender tender_closed ''T1'' 2 = (Inr ?t, tender_reopened)"
    by code_simp
  have rb: "BidRepository_RollbackBid bid_withdrawn ''B1'' 2 = (Inr ?b, bid_restored)"
    by code_simp
  have ht: "map (\<lambda>h. (Tender.ID h, Tender.Version h, Tender.Status h))
              (tbl_tender_history (tables tender_closed)) =
              [(''T1'', 1, CreatedTender), (''T1'', 2, PublishedTender)]"
    by code_simp
  have hb: "map (\<lambda>h. (BidHistory.BidID h, BidHistory.Version h, BidHistory.Status h))
              (tbl_bid_history (tables bid_withdrawn)) =
              [(''B1'', 1, CreatedBid), (''B1'', 2, PublishedBid)]"
    by code_simp
  have pt: "map (\<lambda>x. (Tender.ID x, Tender.Version x, Tender.Status x))
              (tbl_tender (tables tender_closed)) = [(''T1'', 3, ClosedTender)]"
    by code_simp
  have pb: "map (\<lambda>x. (Bid.ID x, Bid.Version x, Bid.Status x)) (tbl_bid (tables bid_withdrawn)) =
              [(''B1'', 3, CanceledBid)]"
    by code_simp
  have at: "list_all (\<lambda>h. Tender.ID h = ''T1'' \<and> Tender.Version h = 2 \<longrightarrow>
                           Tender.Status h = PublishedTender)
              (tbl_tender_history (tables tender_closed))"
    by code_simp
  have ab: "list_all (\<lambda>h. BidHistory.BidID h = ''B1'' \<and> BidHistory.Version h = 2 \<longrightarrow>
                           BidHistory.Status h = PublishedBid)
              (tbl_bid_history (tables bid_withdrawn))"
    by code_simp
  note T = rollback_restores_status [THEN conjunct1, rule_format, OF rt]
  note B = rollback_restores_status [THEN conjunct2, rule_format, OF rb]
  from T [THEN conjunct2, rule_format, OF at]
  have st: "Tender.Status ?t = PublishedTender" by blast
  from T [THEN conjunct1]
  have lt: "select_tender ''T1'' (tables tender_reopened) = Some ?t" by blast
  from B [THEN conjunct2, rule_format, OF ab]
  have sb: "Bid.Status ?b = PublishedBid" by blast
  from B [THEN conjunct1]
  have lb: "select_bid ''B1'' (tables bid_restored) = Some ?b" by blast
  show ?thesis
    by (intro conjI) (fact rt ht pt st lt rb hb pb sb lb)+
qed

text \<open>
  C4 (as amended). A rollback to a version that has no history row for the entity fails
  and changes no table: no live row is touched and no history row is written. The error
  is not a \<^verbatim>\<open>NotFound\<close> response: the repository returns the driver's
  \<^verbatim>\<open>pgx.ErrNoRows\<close> (or the store's own error when a lookup fails), the service
  passes it on unchanged once its own checks pass, and a handler answers such an error
  with status 500.
\<close>

theorem rollback_to_missing_version_changes_nothing:
  "(\<not> list_ex (\<lambda>h. Tender.ID h = tenderId \<and> Tender.Version h = version)
         (tbl_tender_history (tables DB)) \<longrightarrow>
      (\<exists>err. fst (TenderRepository_RollbackTender DB tenderId version) = Inl err \<and>
         (err = ErrNoRows \<or> err = StoreFailure) \<and>
         (faults DB = [] \<longrightarrow> err = ErrNoRows) \<and>
         response_status err = StatusInternalServerError) \<and>
      tables (snd (TenderRepository_RollbackTender DB tenderId version)) = tables DB \<and>
      (Atoi versionStr = Some version \<longrightarrow>
         (\<exists>err. fst (TenderService_RollbackTender DB tenderId username versionStr) = Inl err) \<and>
         tables (snd (TenderService_RollbackTender DB tenderId username versionStr)) = tables DB \<and>
         (faults DB = [] \<and> tenderId \<noteq> [] \<and> username \<noteq> [] \<and>
          list_ex (\<lambda>e. emp_username e = username) (tbl_employee (tables DB)) \<and>
          is_authorized (tables DB) username tenderId \<longrightarrow>
          fst (TenderService_RollbackTender DB tenderId username versionStr) = Inl ErrNoRows))) \<and>
   (\<not> list_ex (\<lambda>h. BidHistory.BidID h = bidId \<and> BidHistory.Version h = version)
         (tbl_bid_history (tables DB)) \<longrightarrow>
      (\<exists>err. fst (BidRepository_RollbackBid DB bidId version) = Inl err \<and>
         (err = ErrNoRows \<or> err = StoreFailure) \<and>
         (faults DB = [] \<longrightarrow> err = ErrNoRows) \<and>
         response_status err = StatusInternalServerError) \<and>
      tables (snd (BidRepository_RollbackBid DB bidId version)) = tables DB \<and>
      (Atoi versionStr = Some version \<longrightarrow>
         (\<exists>err. fst (BidService_RollbackBid DB bidId username versionStr) = Inl err) \<and>
         tables (snd (BidService_RollbackBid DB bidId username versionStr)) = tables DB \<and>
         (faults DB = [] \<and> bidId \<noteq> [] \<and> username \<noteq> [] \<and>
          list_ex (\<lambda>e. emp_username e = username) (tbl_employee (tables DB)) \<longrightarrow>
          fst (BidService_RollbackBid DB bidId username versionStr) = Inl ErrNoRows)))"
proof (intro conjI impI)
  assume none: "\<not> list_ex (\<lambda>h. Tender.ID h = tenderId \<and> Tender.Version h = version)
                    (tbl_tender_history (tables DB))"
  from RollbackTender_missing_version [OF none] obtain err where
    e: "fst (TenderRepository_RollbackTender DB tenderId version) = Inl err"
    and k: "err = ErrNoRows \<or> err = StoreFailure"
    and f: "faults DB = [] \<longrightarrow> err = ErrNoRows"
    and t: "tables (snd (TenderRepository_RollbackTender DB tenderId version)) = tables DB"
    by blast
  from k have "response_status err = StatusInternalServerError"
    by (auto simp: response_status_def)
  with e k f
  show "\<exists>err. fst (TenderRepository_RollbackTender DB tenderId version) = Inl err \<and>
         (err = ErrNoRows \<or> err = StoreFailure) \<and>
         (faults DB = [] \<longrightarrow> err = ErrNoRows) \<and>
         response_status err = StatusInternalServerError"
    by blast
  from t show "tables (snd (TenderRepository_RollbackTender DB tenderId version)) = tables DB" .
  {
    assume v: "Atoi versionStr = Some version"
    note s = TenderService_RollbackTender_missing_version [OF v none, of username]
    from s show "\<exists>err. fst (TenderService_RollbackTender DB tenderId username versionStr) = Inl err"
      by blast
    from s show "tables (snd (TenderService_RollbackTender DB tenderId username versionStr)) = tables DB"
      by blast
    assume "faults DB = [] \<and> tenderId \<noteq> [] \<and> username \<noteq> [] \<and>
            list_ex (\<lambda>e. emp_username e = username) (tbl_employee (tables DB)) \<and>
            is_authorized (tables DB) username tenderId"
    with s show "fst (TenderService_RollbackTender DB tenderId username versionStr) = Inl ErrNoRows"
      by blast
  }
next
  assume none: "\<not> list_ex (\<lambda>h. BidHistory.BidID h = bidId \<and> BidHistory.Version h = version)
                    (tbl_bid_history (tables DB))"
  from RollbackBid_missing_version [OF none] obtain err where
    e: "fst (BidRepository_RollbackBid DB bidId version) = Inl err"
    and k: "err = ErrNoRows \<or> err = StoreFailure"
    and f: "faults DB = [] \<longrightarrow> err = ErrNoRows"
    and t: "tables (snd (BidRepository_RollbackBid DB bidId version)) = tables DB"
    by blast
  from k have "response_status err = StatusInternalServerError"
    by (auto simp: response_status_def)
  with e k f
  show "\<exists>err. fst (BidRepository_RollbackBid DB bidId version) = Inl err \<and>
         (err = ErrNoRows \<or> err = StoreFailure) \<and>
         (faults DB = [] \<longrightarrow> err = ErrNoRows) \<and>
         response_status err = StatusInternalServerError"
    by blast
  from t show "tables (snd (BidRepository_RollbackBid DB bidId version)) = tables DB" .
  {
    assume v: "Atoi versionStr = Some version"
    note s = BidService_RollbackBid_missing_version [OF v none, of username]
    from s show "\<exists>err. fst (BidService_RollbackBid DB bidId username versionStr) = Inl err"
      by blast
    from s show "tables (snd (BidService_RollbackBid DB bidId username versionStr)) = tables DB"
      by blast
    assume "faults DB = [] \<and> bidId \<noteq> [] \<and> username \<noteq> [] \<and>
            list_ex (\<lambda>e. emp_username e = username) (tbl_employee (tables DB))"
    with s show "fst (BidService_RollbackBid DB bidId username versionStr) = Inl ErrNoRows"
      by blast
  }
qed

theorem rollback_to_missing_version_changes_nothing_witness:
  "\<not> list_ex (\<lambda>h. Tender.ID h = ''T1'' \<and> Tender.Version h = 7)
       (tbl_tender_history (tables sample_pool)) \<and>
   fst (TenderRepository_RollbackTender sample_pool ''T1'' 7) = Inl ErrNoRows \<and>
   tables (snd (TenderRepository_RollbackTender sample_pool ''T1'' 7)) = tables sample_pool \<and>
   fst (TenderService_RollbackTender sample_pool ''T1'' ''alice'' ''7'') = Inl ErrNoRows \<and>
   tables (snd (TenderService_RollbackTender sample_pool ''T1'' ''alice'' ''7'')) =
     tables sample_pool \<and>
   \<not> list_ex (\<lambda>h. BidHistory.BidID h = ''B1'' \<and> BidHistory.Version h = 7)
       (tbl_bid_history (tables sample_pool)) \<and>
   fst (BidRepository_RollbackBid sample_pool ''B1'' 7) = Inl ErrNoRows \<and>
   tables (snd (BidRepository_RollbackBid sample_pool ''B1'' 7)) = tables sample_pool \<and>
   fst (BidService_RollbackBid sample_pool ''B1'' ''bob'' ''7'') = Inl ErrNoRows \<and>
   tables (snd (BidService_RollbackBid sample_pool ''B1'' ''bob'' ''7'')) = tables sample_pool"
proof -
  have nt: "\<not> list_ex (\<lambda>h. Tender.ID h = ''T1'' \<and> Tender.Version h = 7)
                (tbl_tender_history (tables sample_pool))"
    by code_simp
  have nb: "\<not> list_ex (\<lambda>h. BidHistory.BidID h = ''B1'' \<and> BidHistory.Version h = 7)
                (tbl_bid_history (tables sample_pool))"
    by code_simp
  have f: "faults sample_pool = []" by code_simp
  have v: "Atoi ''7'' = Some 7" by code_simp
  have ua: "list_ex (\<lambda>e. emp_username e = ''alice'') (tbl_employee (tables sample_pool))"
    by code_simp
  have ub: "list_ex (\<lambda>e. emp_username e = ''bob'') (tbl_employee (tables sample_pool))"
    by code_simp
  have aa: "is_authorized (tables sample_pool) ''alice'' ''T1''" by code_simp
  note T = rollback_to_missing_version_changes_nothing [THEN conjunct1, rule_format, OF nt]
  note B = rollback_to_missing_version_changes_nothing [THEN conjunct2, rule_format, OF nb]
  from T f have t1: "fst (TenderRepository_RollbackTender sample_pool ''T1'' 7) = Inl ErrNoRows"
    by auto
  from T have t2: "tables (snd (TenderRepository_RollbackTender sample_pool ''T1'' 7)) =
                     tables sample_pool"
    by blast
  from T [of "''7''" "''alice''"] v f ua aa
  have t3: "fst (TenderService_RollbackTender sample_pool ''T1'' ''alice'' ''7'') = Inl ErrNoRows"
    and t4: "tables (snd (TenderService_RollbackTender sample_pool ''T1'' ''alice'' ''7'')) =
               tables sample_pool"
    by simp_all
  from B f have b1: "fst (BidRepository_RollbackBid sample_pool ''B1'' 7) = Inl ErrNoRows"
    by auto
  from B have b2: "tables (snd (BidRepository_RollbackBid sample_pool ''B1'' 7)) =
                     tables sample_pool"
    by blast
  from B [of "''7''" "''bob''"] v f ub
  have b3: "fst (BidService_RollbackBid sample_pool ''B1'' ''bob'' ''7'') = Inl ErrNoRows"
    and b4: "tables (snd (BidService_RollbackBid sample_pool ''B1'' ''bob'' ''7'')) =
               tables sample_pool"
    by simp_all
  show ?thesis
    by (intro conjI) (fact nt t1 t2 t3 t4 nb b1 b2 b3 b4)+
qed

text \<open>The claim as it stands asks for \<^verbatim>\<open>NotFound\<close>; alice's rollback of her tender
  to a version it never had returns \<^verbatim>\<open>pgx.ErrNoRows\<close>, which is answered with 500.\<close>

theorem rollback_to_missing_version_is_not_NotFound:
  "select_tender_history ''T1'' 7 (tables sample_pool) = None \<and>
   TenderService_RollbackTender sample_pool ''T1'' ''alice'' ''7'' = (Inl ErrNoRows, sample_pool) \<and>
   response_status ErrNoRows = StatusInternalServerError \<and>
   response_status ErrNoRows \<noteq> StatusNotFound \<and>
   select_bid_history ''B1'' 7 (tables sample_pool) = None \<and>
   BidService_RollbackBid sample_pool ''B1'' ''bob'' ''7'' = (Inl ErrNoRows, sample_pool)"
  by code_simp

section \<open>Decisions\<close>

lemma BidService_SubmitBidDecision_reaches_repository:
  assumes "BidService_SubmitBidDecision dbPool bidId username decision = (Inr bid, DB')"
  shows "\<exists>p. tables p = tables dbPool \<and>
             BidRepository_SubmitBidDecision p bidId decision = (Inr bid, DB')"
proof -
  obtain r p1 where g: "bid_user_exists dbPool username = (r, p1)"
    by (cases "bid_user_exists dbPool username")
  then have "tables p1 = tables dbPool" by (rule bid_user_exists_tablesD)
  with assms g show ?thesis
    by (cases r) (auto simp: BidService_SubmitBidDecision_def split: if_splits)
qed

lemma BidService_SubmitBidDecision_failure:
  assumes "BidService_SubmitBidDecision dbPool bidId username decision = (Inl err, DB')"
  shows "tbl_tender (tables DB') = tbl_tender (tables dbPool)"
proof -
  obtain r p1 where g: "bid_user_exists dbPool username = (r, p1)"
    by (cases "bid_user_exists dbPool username")
  then have t1: "tables p1 = tables dbPool" by (rule bid_user_exists_tablesD)
  show ?thesis
  proof (cases "decision = [] \<or> username = [] \<or> \<not> allowedDecision decision")
    case True
    with assms show ?thesis
      by (auto simp: BidService_SubmitBidDecision_def split: if_splits)
  next
    case False
    show ?thesis
    proof (cases r)
      case (Inl e)
      with assms g False t1 show ?thesis
        by (auto simp: BidService_SubmitBidDecision_def)
    next
      case (Inr u)
      with assms g False
      have "BidRepository_SubmitBidDecision p1 bidId decision = (Inl err, DB')"
        by (auto simp: BidService_SubmitBidDecision_def)
      from SubmitBidDecision_failure [OF this] t1 show ?thesis by simp
    qed
  qed
qed

text \<open>
  C3 (as amended). An approval that succeeds leaves the bid Approved and every tender row
  with the bid's tender id Closed, whatever the tender's status was. The two writes are
  separate statements with no transaction around them. When the call fails, the tender
  table is as before (the tender is never closed without the bid being Approved), and the
  bid table is as before or has the bid Approved. The latter is what happens whenever the
  tender write is the statement that fails, the lookup and the bid write before it having
  been answered: the call returns the store's error, the bid (found by the lookup) is
  Approved, and the tender has the status it had before the call, Closed only if it was
  Closed already.
\<close>

theorem approval_closes_parent_tender:
  "(BidRepository_SubmitBidDecision DB bidId ApprovedBid = (Inr bid, DB') \<longrightarrow>
      (\<exists>bid0. select_bid bidId (tables DB) = Some bid0 \<and> bid = bid0\<lparr>Bid.Status := ApprovedBid\<rparr>) \<and>
      tbl_bid (tables DB') =
        map (\<lambda>b. if Bid.ID b = bidId then b\<lparr>Bid.Status := ApprovedBid\<rparr> else b)
          (tbl_bid (tables DB)) \<and>
      tbl_tender (tables DB') =
        map (\<lambda>t. if Tender.ID t = Bid.TenderId bid then t\<lparr>Tender.Status := ClosedTender\<rparr> else t)
          (tbl_tender (tables DB)) \<and>
      list_all (\<lambda>t. Tender.ID t \<noteq> Bid.TenderId bid \<or> Tender.Status t = ClosedTender)
        (tbl_tender (tables DB')) \<and>
      list_all (\<lambda>b. Bid.ID b \<noteq> bidId \<or> Bid.Status b = ApprovedBid) (tbl_bid (tables DB'))) \<and>
   (BidRepository_SubmitBidDecision DB bidId ApprovedBid = (Inl err, DB') \<longrightarrow>
      tbl_tender (tables DB') = tbl_tender (tables DB) \<and>
      (tbl_bid (tables DB') = tbl_bid (tables DB) \<or>
       tbl_bid (tables DB') =
         map (\<lambda>b. if Bid.ID b = bidId then b\<lparr>Bid.Status := ApprovedBid\<rparr> else b)
           (tbl_bid (tables DB)))) \<and>
   (select_bid bidId (tables DB) = Some found \<and>
    faults DB = NoFault # NoFault # tenderWrite # rest \<and> tenderWrite \<noteq> NoFault \<longrightarrow>
      BidRepository_SubmitBidDecision DB bidId ApprovedBid =
        (Inl StoreFailure,
         \<lparr>tables = update_bid bidId (\<lambda>b. b\<lparr>Bid.Status := ApprovedBid\<rparr>) (tables DB),
          faults = rest\<rparr>) \<and>
      select_bid bidId (tables (snd (BidRepository_SubmitBidDecision DB bidId ApprovedBid))) =
        Some (found\<lparr>Bid.Status := ApprovedBid\<rparr>) \<and>
      list_all (\<lambda>b. Bid.ID b \<noteq> bidId \<or> Bid.Status b = ApprovedBid)
        (tbl_bid (tables (snd (BidRepository_SubmitBidDecision DB bidId ApprovedBid)))) \<and>
      tbl_tender (tables (snd (BidRepository_SubmitBidDecision DB bidId ApprovedBid))) =
        tbl_tender (tables DB)) \<and>
   (BidService_SubmitBidDecision DB bidId username ApprovedBid = (Inr bid, DB') \<longrightarrow>
      list_all (\<lambda>t. Tender.ID t \<noteq> Bid.TenderId bid \<or> Tender.Status t = ClosedTender)
        (tbl_tender (tables DB')) \<and>
      list_all (\<lambda>b. Bid.ID b \<noteq> bidId \<or> Bid.Status b = ApprovedBid) (tbl_bid (tables DB'))) \<and>
   (BidService_SubmitBidDecision DB bidId username ApprovedBid = (Inl err, DB') \<longrightarrow>
      tbl_tender (tables DB') = tbl_tender (tables DB))"
proof -
  have repo: "(\<exists>bid0. select_bid bidId (tables p) = Some bid0 \<and> bid = bid0\<lparr>Bid.Status := ApprovedBid\<rparr>) \<and>
      tbl_bid (tables DB') =
        map (\<lambda>b. if Bid.ID b = bidId then b\<lparr>Bid.Status := ApprovedBid\<rparr> else b)
          (tbl_bid (tables p)) \<and>
      tbl_tender (tables DB') =
        map (\<lambda>t. if Tender.ID t = Bid.TenderId bid then t\<lparr>Tender.Status := ClosedTender\<rparr> else t)
          (tbl_tender (tables p)) \<and>
      list_all (\<lambda>t. Tender.ID t \<noteq> Bid.TenderId bid \<or> Tender.Status t = ClosedTender)
        (tbl_tender (tables DB')) \<and>
      list_all (\<lambda>b. Bid.ID b \<noteq> bidId \<or> Bid.Status b = ApprovedBid) (tbl_bid (tables DB'))"
    if a: "BidRepository_SubmitBidDecision p bidId ApprovedBid = (Inr bid, DB')" for p
  proof -
    from SubmitBidDecision_approved_success [OF a] obtain bid0 where
      s: "select_bid bidId (tables p) = Some bid0" "bid = bid0\<lparr>Bid.Status := ApprovedBid\<rparr>"
      and tb: "tbl_bid (tables DB') =
             map (\<lambda>b. if Bid.ID b = bidId then b\<lparr>Bid.Status := ApprovedBid\<rparr> else b)
               (tbl_bid (tables p))"
      and tt: "tbl_tender (tables DB') =
             map (\<lambda>t. if Tender.ID t = Bid.TenderId bid then t\<lparr>Tender.Status := ClosedTender\<rparr> else t)
               (tbl_tender (tables p))"
      by blast
    have "list_all (\<lambda>t. Tender.ID t \<noteq> Bid.TenderId bid \<or> Tender.Status t = ClosedTender)
            (tbl_tender (tables DB'))"
      unfolding tt by (rule list_all_updated_tender) simp
    moreover have "list_all (\<lambda>b. Bid.ID b \<noteq> bidId \<or> Bid.Status b = ApprovedBid)
                     (tbl_bid (tables DB'))"
      unfolding tb by (rule list_all_updated_bid) simp
    ultimately show ?thesis using s tb tt by blast
  qed
  have service: "list_all (\<lambda>t. Tender.ID t \<noteq> Bid.TenderId bid \<or> Tender.Status t = ClosedTender)
        (tbl_tender (tables DB')) \<and>
      list_all (\<lambda>b. Bid.ID b \<noteq> bidId \<or> Bid.Status b = ApprovedBid) (tbl_bid (tables DB'))"
    if a: "BidService_SubmitBidDecision DB bidId username ApprovedBid = (Inr bid, DB')"
  proof -
    from BidService_SubmitBidDecision_reaches_repository [OF a] obtain p where
      "BidRepository_SubmitBidDecision p bidId ApprovedBid = (Inr bid, DB')" by blast
    from repo [OF this] show ?thesis by blast
  qed
  have broken: "BidRepository_SubmitBidDecision DB bidId ApprovedBid =
        (Inl StoreFailure,
         \<lparr>tables = update_bid bidId (\<lambda>b. b\<lparr>Bid.Status := ApprovedBid\<rparr>) (tables DB),
          faults = rest\<rparr>) \<and>
      select_bid bidId (tables (snd (BidRepository_SubmitBidDecision DB bidId ApprovedBid))) =
        Some (found\<lparr>Bid.Status := ApprovedBid\<rparr>) \<and>
      list_all (\<lambda>b. Bid.ID b \<noteq> bidId \<or> Bid.Status b = ApprovedBid)
        (tbl_bid (tables (snd (BidRepository_SubmitBidDecision DB bidId ApprovedBid)))) \<and>
      tbl_tender (tables (snd (BidRepository_SubmitBidDecision DB bidId ApprovedBid))) =
        tbl_tender (tables DB)"
    if sel: "select_bid bidId (tables DB) = Some found"
      and plan: "faults DB = NoFault # NoFault # tenderWrite # rest"
      and fails: "tenderWrite \<noteq> NoFault"
  proof -
    note r = SubmitBidDecision_tender_write_fails [OF sel plan fails]
    have live: "select_bid bidId (update_bid bidId (\<lambda>b. b\<lparr>Bid.Status := ApprovedBid\<rparr>) (tables DB)) =
                  Some (found\<lparr>Bid.Status := ApprovedBid\<rparr>)"
      using select_bid_update [of "\<lambda>b. b\<lparr>Bid.Status := ApprovedBid\<rparr>" bidId "tables DB"] sel
      by simp
    have "list_all (\<lambda>b. Bid.ID b \<noteq> bidId \<or> Bid.Status b = ApprovedBid)
            (map (\<lambda>b. if Bid.ID b = bidId then b\<lparr>Bid.Status := ApprovedBid\<rparr> else b)
               (tbl_bid (tables DB)))"
      by (rule list_all_updated_bid) simp
    then have rows: "list_all (\<lambda>b. Bid.ID b \<noteq> bidId \<or> Bid.Status b = ApprovedBid)
                  (tbl_bid (update_bid bidId (\<lambda>b. b\<lparr>Bid.Status := ApprovedBid\<rparr>) (tables DB)))"
      by (simp add: update_bid_def)
    have frame: "tbl_tender (update_bid bidId (\<lambda>b. b\<lparr>Bid.Status := ApprovedBid\<rparr>) (tables DB)) =
                   tbl_tender (tables DB)"
      by (simp add: update_bid_def)
    from live rows frame show ?thesis by (simp add: r)
  qed
  show ?thesis
    using repo [of DB] service broken SubmitBidDecision_failure [of DB bidId ApprovedBid err DB']
      BidService_SubmitBidDecision_failure [of DB bidId username ApprovedBid err DB']
    by blast
qed

theorem approval_closes_parent_tender_witness:
  "BidRepository_SubmitBidDecision sample_pool ''B1'' ApprovedBid =
     (Inr (asphalt_offer_row\<lparr>Bid.Status := ApprovedBid\<rparr>),
      snd (BidRepository_SubmitBidDecision sample_pool ''B1'' ApprovedBid)) \<and>
   tbl_tender (tables sample_pool) = [road_repair_row\<lparr>Tender.Status := PublishedTender\<rparr>, bridge_paint_row] \<and>
   tbl_tender (tables (snd (BidRepository_SubmitBidDecision sample_pool ''B1'' ApprovedBid))) =
     [road_repair_row\<lparr>Tender.Status := ClosedTender\<rparr>, bridge_paint_row] \<and>
   tbl_bid (tables (snd (BidRepository_SubmitBidDecision sample_pool ''B1'' ApprovedBid))) =
     [asphalt_offer_row\<lparr>Bid.Status := ApprovedBid\<rparr>] \<and>
   BidRepository_SubmitBidDecision third_statement_fails ''B1'' ApprovedBid =
     (Inl StoreFailure, snd (BidRepository_SubmitBidDecision third_statement_fails ''B1'' ApprovedBid)) \<and>
   tbl_tender (tables (snd (BidRepository_SubmitBidDecision third_statement_fails ''B1'' ApprovedBid))) =
     tbl_tender (tables third_statement_fails) \<and>
   select_bid ''B1'' (tables third_statement_fails_closed) = Some asphalt_offer_row \<and>
   faults third_statement_fails_closed = [NoFault, NoFault, BrokenAfter 0] \<and>
   fst (BidRepository_SubmitBidDecision third_statement_fails_closed ''B1'' ApprovedBid) =
     Inl StoreFailure \<and>
   select_bid ''B1''
     (tables (snd (BidRepository_SubmitBidDecision third_statement_fails_closed ''B1'' ApprovedBid))) =
     Some (asphalt_offer_row\<lparr>Bid.Status := ApprovedBid\<rparr>) \<and>
   tbl_tender
     (tables (snd (BidRepository_SubmitBidDecision third_statement_fails_closed ''B1'' ApprovedBid))) =
     [road_repair_row\<lparr>Tender.Status := ClosedTender\<rparr>, bridge_paint_row]"
proof -
  let ?ok = "snd (BidRepository_SubmitBidDecision sample_pool ''B1'' ApprovedBid)"
  let ?ko = "snd (BidRepository_SubmitBidDecision third_statement_fails ''B1'' ApprovedBid)"
  let ?kc = "snd (BidRepository_SubmitBidDecision third_statement_fails_closed ''B1'' ApprovedBid)"
  have ok: "BidRepository_SubmitBidDecision sample_pool ''B1'' ApprovedBid =
              (Inr (asphalt_offer_row\<lparr>Bid.Status := ApprovedBid\<rparr>), ?ok)"
    by code_simp
  have ko: "BidRepository_SubmitBidDecision third_statement_fails ''B1'' ApprovedBid =
              (Inl StoreFailure, ?ko)"
    by code_simp
  have before: "tbl_tender (tables sample_pool) =
                  [road_repair_row\<lparr>Tender.Status := PublishedTender\<rparr>, bridge_paint_row]"
    by code_simp
  have bids: "tbl_bid (tables sample_pool) = [asphalt_offer_row]" by code_simp
  have sel: "select_bid ''B1'' (tables third_statement_fails_closed) = Some asphalt_offer_row"
    by code_simp
  have plan: "faults third_statement_fails_closed = [NoFault, NoFault, BrokenAfter 0]"
    by code_simp
  have closed: "tbl_tender (tables third_statement_fails_closed) =
                  [road_repair_row\<lparr>Tender.Status := ClosedTender\<rparr>, bridge_paint_row]"
    by code_simp
  have fails: "BrokenAfter 0 \<noteq> NoFault" by simp
  note S = approval_closes_parent_tender [THEN conjunct1, rule_format, OF ok]
  note F = approval_closes_parent_tender [THEN conjunct2, THEN conjunct1, rule_format, OF ko]
  note G = approval_closes_parent_tender
             [THEN conjunct2, THEN conjunct2, THEN conjunct1, rule_format,
              OF conjI [OF sel conjI [OF plan fails]]]
  from S have t: "tbl_tender (tables ?ok) =
                    [road_repair_row\<lparr>Tender.Status := ClosedTender\<rparr>, bridge_paint_row]"
    by (simp add: before road_repair_row_def bridge_paint_row_def asphalt_offer_row_def)
  from S have b: "tbl_bid (tables ?ok) = [asphalt_offer_row\<lparr>Bid.Status := ApprovedBid\<rparr>]"
    by (simp add: bids asphalt_offer_row_def)
  from F have f: "tbl_tender (tables ?ko) = tbl_tender (tables third_statement_fails)"
    by blast
  from G have ge: "fst (BidRepository_SubmitBidDecision third_statement_fails_closed ''B1'' ApprovedBid) =
                     Inl StoreFailure"
    by simp
  from G have gb: "select_bid ''B1'' (tables ?kc) = Some (asphalt_offer_row\<lparr>Bid.Status := ApprovedBid\<rparr>)"
    by blast
  from G have "tbl_tender (tables ?kc) = tbl_tender (tables third_statement_fails_closed)"
    by blast
  with closed have gt: "tbl_tender (tables ?kc) =
                          [road_repair_row\<lparr>Tender.Status := ClosedTender\<rparr>, bridge_paint_row]"
    by simp
  show ?thesis
    by (intro conjI) (fact ok before t b ko f sel plan ge gb gt)+
qed

text \<open>The claim as it stands: no state with the bid Approved and the tender not Closed.
  When the tender write fails, the approval of bob's bid stays and alice's tender is still
  Published.\<close>

theorem approval_is_not_atomic:
  "fst (BidRepository_SubmitBidDecision third_statement_fails ''B1'' ApprovedBid) =
     Inl StoreFailure \<and>
   map Bid.Status (tbl_bid (tables third_statement_fails)) = [CreatedBid] \<and>
   map Bid.Status
     (tbl_bid (tables (snd (BidRepository_SubmitBidDecision third_statement_fails ''B1'' ApprovedBid)))) =
     [ApprovedBid] \<and>
   map Bid.TenderId
     (tbl_bid (tables (snd (BidRepository_SubmitBidDecision third_statement_fails ''B1'' ApprovedBid)))) =
     [''T1''] \<and>
   map Tender.ID
     (tbl_tender (tables (snd (BidRepository_SubmitBidDecision third_statement_fails ''B1'' ApprovedBid)))) =
     [''T1'', ''T2''] \<and>
   map Tender.Status
     (tbl_tender (tables (snd (BidRepository_SubmitBidDecision third_statement_fails ''B1'' ApprovedBid)))) =
     [PublishedTender, CreatedTender]"
  by code_simp

section \<open>Listing a user's tenders\<close>

text \<open>
  C10. When the requested page of a user's tenders (the tenders the user created, by name,
  cut by limit and offset) holds a tender for whose organization the user is not
  responsible, and the store answers every statement, the listing is the 403 response and
  no tenders, in the repository function and in the service above it: the tender is not
  left out of an otherwise successful listing. Whatever the store does, the tables are as
  before, and a listing that is returned all the same is a proper beginning of the page
  made of tenders that passed the check: it comes from a result that broke off before the
  tender was reached, which \<^verbatim>\<open>GetUserTender\<close> does not notice.
\<close>

theorem listing_fails_when_not_responsible:
  "user_tender_page username limit offset (tables DB) = Inr page \<and>
   list_ex (\<lambda>t. \<not> is_responsible (tables DB) username (Tender.OrganizationID t)) page \<longrightarrow>
     (faults DB = [] \<longrightarrow>
        TenderRepository_GetUserTender DB limit offset username =
          (Inl (ErrorResponse StatusForbidden
             ''you do not have permission to view tenders for this organization''), DB)) \<and>
     tables (snd (TenderRepository_GetUserTender DB limit offset username)) = tables DB \<and>
     (\<forall>tenders. fst (TenderRepository_GetUserTender DB limit offset username) = Inr tenders \<longrightarrow>
        (\<exists>n. tenders = take n page) \<and> length tenders < length page \<and>
        list_all (\<lambda>t. is_responsible (tables DB) username (Tender.OrganizationID t)) tenders) \<and>
     (ParseLimitOffset limitStr offsetStr = Inr (limit, offset) \<longrightarrow>
        (faults DB = [] \<and>
         (username = [] \<or> list_ex (\<lambda>e. emp_username e = username) (tbl_employee (tables DB)))
         \<longrightarrow>
           TenderService_GetUserTender DB limitStr offsetStr username =
             (Inl (ErrorResponse StatusForbidden
                ''you do not have permission to view tenders for this organization''), DB)) \<and>
        (\<forall>tenders. fst (TenderService_GetUserTender DB limitStr offsetStr username) = Inr tenders \<longrightarrow>
           (\<exists>n. tenders = take n page) \<and> length tenders < length page \<and>
           list_all (\<lambda>t. is_responsible (tables DB) username (Tender.OrganizationID t)) tenders))"
proof (intro impI, elim conjE)
  assume page: "user_tender_page username limit offset (tables DB) = Inr page"
    and bad: "list_ex (\<lambda>t. \<not> is_responsible (tables DB) username (Tender.OrganizationID t)) page"
  note R = GetUserTender_not_responsible [OF page bad]
  have S: "(faults DB = [] \<and>
         (username = [] \<or> list_ex (\<lambda>e. emp_username e = username) (tbl_employee (tables DB)))
         \<longrightarrow>
           TenderService_GetUserTender DB limitStr offsetStr username =
             (Inl (ErrorResponse StatusForbidden
                ''you do not have permission to view tenders for this organization''), DB)) \<and>
        (\<forall>tenders. fst (TenderService_GetUserTender DB limitStr offsetStr username) = Inr tenders \<longrightarrow>
           (\<exists>n. tenders = take n page) \<and> length tenders < length page \<and>
           list_all (\<lambda>t. is_responsible (tables DB) username (Tender.OrganizationID t)) tenders)"
    if "ParseLimitOffset limitStr offsetStr = Inr (limit, offset)"
    using TenderService_GetUserTender_not_responsible [OF that page bad] .
  from R S show "(faults DB = [] \<longrightarrow>
        TenderRepository_GetUserTender DB limit offset username =
          (Inl (ErrorResponse StatusForbidden
             ''you do not have permission to view tenders for this organization''), DB)) \<and>
     tables (snd (TenderRepository_GetUserTender DB limit offset username)) = tables DB \<and>
     (\<forall>tenders. fst (TenderRepository_GetUserTender DB limit offset username) = Inr tenders \<longrightarrow>
        (\<exists>n. tenders = take n page) \<and> length tenders < length page \<and>
        list_all (\<lambda>t. is_responsible (tables DB) username (Tender.OrganizationID t)) tenders) \<and>
     (ParseLimitOffset limitStr offsetStr = Inr (limit, offset) \<longrightarrow>
        (faults DB = [] \<and>
         (username = [] \<or> list_ex (\<lambda>e. emp_username e = username) (tbl_employee (tables DB)))
         \<longrightarrow>
           TenderService_GetUserTender DB limitStr offsetStr username =
             (Inl (ErrorResponse StatusForbidden
                ''you do not have permission to view tenders for this organization''), DB)) \<and>
        (\<forall>tenders. fst (TenderService_GetUserTender DB limitStr offsetStr username) = Inr tenders \<longrightarrow>
           (\<exists>n. tenders = take n page) \<and> length tenders < length page \<and>
           list_all (\<lambda>t. is_responsible (tables DB) username (Tender.OrganizationID t)) tenders))"
    by blast
qed

theorem listing_fails_when_not_responsible_witness:
  "user_tender_page ''bob'' 5 0 (tables sample_pool) = Inr [bridge_paint_row] \<and>
   list_ex (\<lambda>t. \<not> is_responsible (tables sample_pool) ''bob'' (Tender.OrganizationID t))
     [bridge_paint_row] \<and>
   TenderRepository_GetUserTender sample_pool 5 0 ''bob'' =
     (Inl (ErrorResponse StatusForbidden
        ''you do not have permission to view tenders for this organization''), sample_pool) \<and>
   ParseLimitOffset [] [] = Inr (5, 0) \<and>
   TenderService_GetUserTender sample_pool [] [] ''bob'' =
     (Inl (ErrorResponse StatusForbidden
        ''you do not have permission to view tenders for this organization''), sample_pool) \<and>
   user_tender_page ''bob'' 5 0 (tables listing_breaks_off) = Inr [bridge_paint_row] \<and>
   fst (TenderRepository_GetUserTender listing_breaks_off 5 0 ''bob'') = Inr [] \<and>
   length ([] :: Tender list) < length [bridge_paint_row] \<and>
   tables (snd (TenderRepository_GetUserTender listing_breaks_off 5 0 ''bob'')) =
     tables listing_breaks_off"
proof -
  have page: "user_tender_page ''bob'' 5 0 (tables sample_pool) = Inr [bridge_paint_row]"
    by code_simp
  have bad: "list_ex (\<lambda>t. \<not> is_responsible (tables sample_pool) ''bob'' (Tender.OrganizationID t))
               [bridge_paint_row]"
    by code_simp
  have page': "user_tender_page ''bob'' 5 0 (tables listing_breaks_off) = Inr [bridge_paint_row]"
    by code_simp
  have bad': "list_ex (\<lambda>t. \<not> is_responsible (tables listing_breaks_off) ''bob''
                              (Tender.OrganizationID t)) [bridge_paint_row]"
    by code_simp
  have parse: "ParseLimitOffset [] [] = Inr (5, 0)" by code_simp
  have f: "faults sample_pool = []" by code_simp
  have u: "list_ex (\<lambda>e. emp_username e = ''bob'') (tbl_employee (tables sample_pool))"
    by code_simp
  have broke: "fst (TenderRepository_GetUserTender listing_breaks_off 5 0 ''bob'') = Inr []"
    by code_simp
  note L = listing_fails_when_not_responsible
             [rule_format, OF conjI [OF page bad], of "[]" "[]"]
  note L' = listing_fails_when_not_responsible
             [rule_format, OF conjI [OF page' bad'], of "[]" "[]"]
  from L f have r: "TenderRepository_GetUserTender sample_pool 5 0 ''bob'' =
     (Inl (ErrorResponse StatusForbidden
        ''you do not have permission to view tenders for this organization''), sample_pool)"
    by blast
  from L parse f u have s: "TenderService_GetUserTender sample_pool [] [] ''bob'' =
     (Inl (ErrorResponse StatusForbidden
        ''you do not have permission to view tenders for this organization''), sample_pool)"
    by blast
  from L' broke have short: "length ([] :: Tender list) < length [bridge_paint_row]"
    by blast
  from L' have frame: "tables (snd (TenderRepository_GetUserTender listing_breaks_off 5 0 ''bob'')) =
                         tables listing_breaks_off"
    by blast
  show ?thesis
    by (intro conjI) (fact page bad r parse s page' broke short frame)+
qed

section \<open>The version ledger\<close>

text \<open>A rollback that succeeds writes its history row at the version the live row has
  just been raised to, so the live version is a history version and not one more than the
  newest. An edit that finds no usable field returns its error after the history insert.\<close>

lemma RollbackTender_history_at_live_version:
  assumes "TenderRepository_RollbackTender DB tenderId version = (Inr t, DB')"
  shows "select_tender tenderId (tables DB') = Some t \<and>
         last (tbl_tender_history (tables DB')) = t \<and>
         Tender.Version t \<in> set (map Tender.Version (tbl_tender_history (tables DB')))"
proof -
  from RollbackTender_success [OF assms]
  have live: "select_tender tenderId (tables DB') = Some t"
    and hist: "tbl_tender_history (tables DB') = tbl_tender_history (tables DB) @ [t]"
    by blast+
  from hist have "last (tbl_tender_history (tables DB')) = t" by simp
  moreover from hist
  have "Tender.Version t \<in> set (map Tender.Version (tbl_tender_history (tables DB')))"
    by simp
  ultimately show ?thesis using live by simp
qed

lemma RollbackBid_history_at_live_version:
  assumes "BidRepository_RollbackBid DB bidId version = (Inr bid, DB')"
  shows "select_bid bidId (tables DB') = Some bid \<and>
         last (tbl_bid_history (tables DB')) = bid_history_row bid (Bid.Version bid) \<and>
         Bid.Version bid \<in> set (map BidHistory.Version (tbl_bid_history (tables DB')))"
proof -
  from RollbackBid_success [OF assms]
  have live: "select_bid bidId (tables DB') = Some bid"
    and hist: "tbl_bid_history (tables DB') =
                 tbl_bid_history (tables DB) @ [bid_history_row bid (Bid.Version bid)]"
    by blast+
  from hist have "last (tbl_bid_history (tables DB')) = bid_history_row bid (Bid.Version bid)"
    by simp
  moreover from hist
  have "Bid.Version bid \<in> set (map BidHistory.Version (tbl_bid_history (tables DB')))"
    by (simp add: bid_history_row_def)
  ultimately show ?thesis using live by simp
qed

lemma EditTender_no_valid_fields:
  assumes "faults DB = []"
    and "select_tender tenderId (tables DB) = Some currentTender"
    and "tender_updates updateFields = Inr []"
  shows "TenderRepository_EditTender DB tenderId updateFields =
           (Inl (ErrorResponse StatusBadRequest ''No valid fields to update''),
            DB\<lparr>tables :=
                 insert_tender_history
                   (currentTender\<lparr>Tender.Version :=
                      tender_history_max_version (Tender.ID currentTender) (tables DB) + 1\<rparr>)
                   (tables DB)\<rparr>)"
  using assms
  by (simp add: TenderRepository_EditTender_def QueryRow_no_faults Exec_no_faults)

lemma EditBid_no_valid_fields:
  assumes "faults DB = []"
    and "select_bid bidId (tables DB) = Some currentBid"
    and "bid_updates updateFields = []"
  shows "BidRepository_EditBid DB bidId updateFields =
           (Inl (ErrorResponse StatusBadRequest ''no valid fields to update''),
            DB\<lparr>tables :=
                 insert_bid_history
                   (bid_history_row currentBid
                      (bid_history_max_version (Bid.ID currentBid) (tables DB) + 1))
                   (tables DB)\<rparr>)"
  using assms
  by (simp add: BidRepository_EditBid_def QueryRow_no_faults Exec_no_faults)

text \<open>
  C1. The ledger is gapless through creation and content edits, and a rollback breaks it:
  \<^verbatim>\<open>RollbackTender\<close> and \<^verbatim>\<open>RollbackBid\<close> raise the live version first and then write
  the history row at that raised version, where \<^verbatim>\<open>EditTender\<close> and \<^verbatim>\<open>EditBid\<close>
  write it at one more than the newest history version. After create, edit and a rollback
  to version 1 the history holds versions 1 and 3, with no row for version 2, and the live
  version is 3, the newest history version itself and not one more.
\<close>

theorem rollback_leaves_gap_in_history:
  "map Tender.Version (tbl_tender (tables tender_created)) = [1] \<and>
   map Tender.Version (tbl_tender_history (tables tender_created)) = [] \<and>
   map Tender.Version (tbl_tender (tables tender_edited)) = [2] \<and>
   map Tender.Version (tbl_tender_history (tables tender_edited)) = [1] \<and>
   map Tender.Version (tbl_tender (tables tender_published)) = [2] \<and>
   map Tender.Version (tbl_tender_history (tables tender_published)) = [1] \<and>
   fst (TenderRepository_RollbackTender tender_published ''T1'' 1) =
     Inr (road_repair_row\<lparr>Tender.Version := 3\<rparr>) \<and>
   map Tender.Version (tbl_tender (tables tender_rolled_back)) = [3] \<and>
   map Tender.Version (tbl_tender_history (tables tender_rolled_back)) = [1, 3] \<and>
   map Bid.Version (tbl_bid (tables bid_created)) = [1] \<and>
   map BidHistory.Version (tbl_bid_history (tables bid_created)) = [] \<and>
   map Bid.Version (tbl_bid (tables bid_edited)) = [2] \<and>
   map BidHistory.Version (tbl_bid_history (tables bid_edited)) = [1] \<and>
   fst (BidRepository_RollbackBid bid_canceled ''B1'' 1) =
     Inr (asphalt_offer_row\<lparr>Bid.Version := 3\<rparr>) \<and>
   map Bid.Version (tbl_bid (tables bid_rolled_back)) = [3] \<and>
   map BidHistory.Version (tbl_bid_history (tables bid_rolled_back)) = [1, 3]"
  by code_simp

text \<open>
  C2. An edit whose patch has no usable field is answered with the 400 response and the
  live row keeps its content and version, but the history table has grown by one row:
  \<^verbatim>\<open>EditTender\<close> and \<^verbatim>\<open>EditBid\<close> insert the snapshot before they look at the
  patch, and return early after it. The same happens for a tender patch whose service type
  is not an allowed one.
\<close>

theorem rejected_edit_still_writes_history:
  "tbl_tender_history (tables tender_created) = [] \<and>
   TenderRepository_EditTender tender_created ''T1'' Map.empty =
     (Inl (ErrorResponse StatusBadRequest ''No valid fields to update''),
      tender_created\<lparr>tables := (tables tender_created)\<lparr>tbl_tender_history := [road_repair_row]\<rparr>\<rparr>) \<and>
   TenderRepository_EditTender tender_created ''T1''
       [''title'' \<mapsto> JString ''Road works'', ''name'' \<mapsto> JString [], ''description'' \<mapsto> JNotString] =
     (Inl (ErrorResponse StatusBadRequest ''No valid fields to update''),
      tender_created\<lparr>tables := (tables tender_created)\<lparr>tbl_tender_history := [road_repair_row]\<rparr>\<rparr>) \<and>
   TenderRepository_EditTender tender_created ''T1'' [''serviceType'' \<mapsto> JString ''Catering''] =
     (Inl (ErrorResponse StatusBadRequest ''invalid service_type parameter: Catering''),
      tender_created\<lparr>tables := (tables tender_created)\<lparr>tbl_tender_history := [road_repair_row]\<rparr>\<rparr>) \<and>
   tbl_bid_history (tables bid_created) = [] \<and>
   BidRepository_EditBid bid_created ''B1'' Map.empty =
     (Inl (ErrorResponse StatusBadRequest ''no valid fields to update''),
      bid_created\<lparr>tables := (tables bid_created)
                     \<lparr>tbl_bid_history := [bid_history_row asphalt_offer_row 1]\<rparr>\<rparr>) \<and>
   BidRepository_EditBid bid_created ''B1''
       [''title'' \<mapsto> JString ''Offer'', ''name'' \<mapsto> JString [], ''description'' \<mapsto> JNotString] =
     (Inl (ErrorResponse StatusBadRequest ''no valid fields to update''),
      bid_created\<lparr>tables := (tables bid_created)
                     \<lparr>tbl_bid_history := [bid_history_row asphalt_offer_row 1]\<rparr>\<rparr>)"
  by code_simp

section \<open>Who may change a bid\<close>

text \<open>For a known user and a store that answers, the edit, rollback, decision and
  feedback services are the repository functions: the username plays no further part.\<close>

lemma BidService_EditBid_any_known_user:
  assumes "faults dbPool = []" and "bidId \<noteq> []" and "username \<noteq> []"
    and "list_ex (\<lambda>e. emp_username e = username) (tbl_employee (tables dbPool))"
  shows "BidService_EditBid dbPool bidId username updateFields =
           BidRepository_EditBid dbPool bidId updateFields"
  using assms
  by (simp add: BidService_EditBid_def CheckBidExists_def QueryRow_no_faults bid_user_exists_pass)

lemma BidService_RollbackBid_any_known_user:
  assumes "faults dbPool = []" and "bidId \<noteq> []" and "username \<noteq> []"
    and "list_ex (\<lambda>e. emp_username e = username) (tbl_employee (tables dbPool))"
    and "Atoi versionStr = Some version"
  shows "BidService_RollbackBid dbPool bidId username versionStr =
           BidRepository_RollbackBid dbPool bidId version"
  using assms Atoi_nonempty [of versionStr version]
  by (simp add: BidService_RollbackBid_def CheckBidExists_def QueryRow_no_faults bid_user_exists_pass)

lemma BidService_SubmitBidDecision_any_known_user:
  assumes "faults dbPool = []" and "username \<noteq> []" and "allowedDecision decision"
    and "list_ex (\<lambda>e. emp_username e = username) (tbl_employee (tables dbPool))"
  shows "BidService_SubmitBidDecision dbPool bidId username decision =
           BidRepository_SubmitBidDecision dbPool bidId decision"
proof -
  from assms(3) have "decision \<noteq> []"
    by (auto simp: allowedDecision_def ApprovedBid_def RejectedBid_def)
  with assms show ?thesis
    by (simp add: BidService_SubmitBidDecision_def bid_user_exists_pass)
qed

lemma BidService_SubmitBidFeedback_any_known_user:
  assumes "faults dbPool = []" and "bidId \<noteq> []" and "username \<noteq> []" and "bidFeedback \<noteq> []"
    and "list_ex (\<lambda>e. emp_username e = username) (tbl_employee (tables dbPool))"
  shows "BidService_SubmitBidFeedback dbPool review bidId bidFeedback username =
           BidRepository_SubmitBidFeedback dbPool review bidId"
  using assms
  by (simp add: BidService_SubmitBidFeedback_def CheckBidExists_def QueryRow_no_faults
        bid_user_exists_pass)

text \<open>
  C7. Only the status change of a bid asks whether the actor is the bid's author.
  mallory exists and is not the author of bob's bid: her status change is refused with
  403, but her edit, her decision, her feedback and her rollback all go through and
  change the tables.
\<close>

theorem bid_mutations_skip_author_check:
  "is_authorized_for_bid (tables sample_pool) ''mallory'' ''B1'' = False \<and>
   BidService_UpdateBidStatus sample_pool ''B1'' PublishedBid ''mallory'' =
     (Inl (ErrorResponse StatusForbidden ''user is not authorized to view bids for this tender''),
      sample_pool) \<and>
   fst (BidService_EditBid sample_pool ''B1'' ''mallory'' [''name'' \<mapsto> JString ''Hijacked'']) =
     Inr (asphalt_offer_row\<lparr>Bid.Name := ''Hijacked'', Bid.Version := 2\<rparr>) \<and>
   tbl_bid (tables (snd (BidService_EditBid sample_pool ''B1'' ''mallory''
                           [''name'' \<mapsto> JString ''Hijacked'']))) =
     [asphalt_offer_row\<lparr>Bid.Name := ''Hijacked'', Bid.Version := 2\<rparr>] \<and>
   fst (BidService_SubmitBidDecision sample_pool ''B1'' ''mallory'' ApprovedBid) =
     Inr (asphalt_offer_row\<lparr>Bid.Status := ApprovedBid\<rparr>) \<and>
   tbl_bid (tables (snd (BidService_SubmitBidDecision sample_pool ''B1'' ''mallory'' ApprovedBid))) =
     [asphalt_offer_row\<lparr>Bid.Status := ApprovedBid\<rparr>] \<and>
   fst (BidService_SubmitBidFeedback sample_pool sample_review ''B1'' ''Price is too high'' ''mallory'') =
     Inr asphalt_offer_row \<and>
   tbl_bid_review (tables (snd (BidService_SubmitBidFeedback sample_pool sample_review ''B1''
                                  ''Price is too high'' ''mallory''))) =
     [sample_review] \<and>
   is_authorized_for_bid (tables sample_bid_edited) ''mallory'' ''B1'' = False \<and>
   tbl_bid (tables sample_bid_edited) =
     [asphalt_offer_row\<lparr>Bid.Description := ''Three layers of asphalt'', Bid.Version := 2\<rparr>] \<and>
   fst (BidService_RollbackBid sample_bid_edited ''B1'' ''mallory'' ''1'') =
     Inr (asphalt_offer_row\<lparr>Bid.Version := 3\<rparr>) \<and>
   tbl_bid (tables (snd (BidService_RollbackBid sample_bid_edited ''B1'' ''mallory'' ''1''))) =
     [asphalt_offer_row\<lparr>Bid.Version := 3\<rparr>]"
  by code_simp

end
